theory Spec2Isabelle
  imports Main "HOL-Library.AList" "HOL-Library.Char_ord" "HOL-Library.List_Lexorder"
    "HOL-Library.Multiset"
begin

section \<open>Python values, dictionaries and exceptions\<close>

text \<open>
  The connection layer of \<^verbatim>\<open>pynamodb/connection/base.py\<close> builds nested dictionaries
  and hands them to botocore. A Python value that can occur in such a request is a
  \<open>pyval\<close>. A dictionary is an association list in insertion order: assigning to a key
  that is present replaces its value in place, assigning to a new key appends it
  (\<open>AList.update\<close>). Strings are ASCII.
\<close>

datatype pyval =
    PNone
  | PBool bool
  | PInt int
  | PStr string
  | PList "pyval list"
  | PDict "(string \<times> pyval) list"

type_synonym dict = "(string \<times> pyval) list"

text \<open>Python truthiness, as \<^verbatim>\<open>if x:\<close> tests it.\<close>

fun truthy :: "pyval \<Rightarrow> bool" where
  "truthy PNone = False"
| "truthy (PBool b) = b"
| "truthy (PInt i) = (i \<noteq> 0)"
| "truthy (PStr s) = (s \<noteq> [])"
| "truthy (PList xs) = (xs \<noteq> [])"
| "truthy (PDict d) = (d \<noteq> [])"

text \<open>\<^verbatim>\<open>d.get(k)\<close> seen as a value: an absent key gives \<^verbatim>\<open>None\<close>.\<close>

definition get_val :: "dict \<Rightarrow> string \<Rightarrow> pyval" where
  "get_val d k = (case map_of d k of None \<Rightarrow> PNone | Some v \<Rightarrow> v)"

text \<open>\<^verbatim>\<open>d.update(e)\<close>: every entry of \<open>e\<close> is assigned into \<open>d\<close>, in the order of \<open>e\<close>.\<close>

definition dict_update :: "dict \<Rightarrow> dict \<Rightarrow> dict" where
  "dict_update d e = foldl (\<lambda>acc kv. AList.update (fst kv) (snd kv) acc) d e"

text \<open>\<^verbatim>\<open>str.upper()\<close> on ASCII text: the letters a to z are raised, every other
  character is kept.\<close>

definition upper_char :: "char \<Rightarrow> char" where
  "upper_char c =
     (case map_of (zip ''abcdefghijklmnopqrstuvwxyz'' ''ABCDEFGHIJKLMNOPQRSTUVWXYZ'') c of
        None \<Rightarrow> c
      | Some u \<Rightarrow> u)"

definition upper :: "string \<Rightarrow> string" where
  "upper s = map upper_char s"

text \<open>
  An exception is a value. The message of an exception is kept as the format string of
  the source together with the arguments of \<^verbatim>\<open>format\<close>, so that no rendering of
  Python values as text is needed. \<open>AttributeError\<close> is what Python raises when a
  method is called on \<^verbatim>\<open>None\<close>, \<open>TypeError\<close> when \<^verbatim>\<open>None\<close> is iterated.
\<close>

datatype exn =
    ValueError string "pyval list"
  | TableError string "pyval list"
  | UpdateError string "pyval list"
  | PutError string "pyval list"
  | ScanError string "pyval list"
  | QueryError string "pyval list"
  | AttributeError
  | TypeError

fun is_ValueError :: "exn \<Rightarrow> bool" where
  "is_ValueError (ValueError f a) = True"
| "is_ValueError _ = False"

section \<open>Constants\<close>

text \<open>
  Modelled from the spec: the modules \<^verbatim>\<open>pynamodb.constants\<close> and \<^verbatim>\<open>pynamodb.types\<close>
  are imported by the source but are not part of it. The enumerations are those of the
  table of enumerations in the specification; the key roles are \<open>HASH\<close> and \<open>RANGE\<close>;
  the names of the request fields are the wire names of the remote store. The sets of
  comparison operators of query and scan are not given in full by the specification and
  are parameters of \<open>query\<close> and \<open>scan\<close> below.
\<close>

definition HASH :: string where "HASH = ''HASH''"
definition RANGE :: string where "RANGE = ''RANGE''"

definition TABLE_NAME :: string where "TABLE_NAME = ''TableName''"
definition TABLE_KEY :: string where "TABLE_KEY = ''Table''"
definition KEY_SCHEMA :: string where "KEY_SCHEMA = ''KeySchema''"
definition KEY_TYPE :: string where "KEY_TYPE = ''KeyType''"
definition ATTR_NAME :: string where "ATTR_NAME = ''AttributeName''"
definition ATTR_TYPE :: string where "ATTR_TYPE = ''AttributeType''"
definition ATTR_DEFINITIONS :: string where "ATTR_DEFINITIONS = ''AttributeDefinitions''"
definition ATTR_UPDATES :: string where "ATTR_UPDATES = ''AttributeUpdates''"
definition ATTR_VALUE_LIST :: string where "ATTR_VALUE_LIST = ''AttributeValueList''"
definition ATTRS_TO_GET :: string where "ATTRS_TO_GET = ''AttributesToGet''"
definition COMPARISON_OPERATOR :: string where "COMPARISON_OPERATOR = ''ComparisonOperator''"
definition CONSISTENT_READ :: string where "CONSISTENT_READ = ''ConsistentRead''"
definition EXCLUSIVE_START_KEY :: string where "EXCLUSIVE_START_KEY = ''ExclusiveStartKey''"
definition SCAN_INDEX_FORWARD :: string where "SCAN_INDEX_FORWARD = ''ScanIndexForward''"
definition KEY_CONDITIONS :: string where "KEY_CONDITIONS = ''KeyConditions''"
definition SCAN_FILTER :: string where "SCAN_FILTER = ''ScanFilter''"
definition REQUEST_ITEMS :: string where "REQUEST_ITEMS = ''RequestItems''"
definition PUT_REQUEST :: string where "PUT_REQUEST = ''PutRequest''"
definition DELETE_REQUEST :: string where "DELETE_REQUEST = ''DeleteRequest''"
definition RETURN_VALUES :: string where "RETURN_VALUES = ''ReturnValues''"
definition RETURN_CONSUMED_CAPACITY :: string where
  "RETURN_CONSUMED_CAPACITY = ''ReturnConsumedCapacity''"
definition RETURN_ITEM_COLL_METRICS :: string where
  "RETURN_ITEM_COLL_METRICS = ''ReturnItemCollectionMetrics''"
definition PROVISIONED_THROUGHPUT :: string where
  "PROVISIONED_THROUGHPUT = ''ProvisionedThroughput''"
definition READ_CAPACITY_UNITS :: string where "READ_CAPACITY_UNITS = ''ReadCapacityUnits''"
definition WRITE_CAPACITY_UNITS :: string where "WRITE_CAPACITY_UNITS = ''WriteCapacityUnits''"
definition GLOBAL_SECONDARY_INDEXES :: string where
  "GLOBAL_SECONDARY_INDEXES = ''GlobalSecondaryIndexes''"
definition LOCAL_SECONDARY_INDEXES :: string where
  "LOCAL_SECONDARY_INDEXES = ''LocalSecondaryIndexes''"
definition INDEX_NAME :: string where "INDEX_NAME = ''IndexName''"
definition PROJECTION :: string where "PROJECTION = ''Projection''"
definition SEGMENT :: string where "SEGMENT = ''Segment''"
definition TOTAL_SEGMENTS :: string where "TOTAL_SEGMENTS = ''TotalSegments''"
definition SELECT :: string where "SELECT = ''Select''"
definition LIMIT :: string where "LIMIT = ''Limit''"
definition EXPECTED :: string where "EXPECTED = ''Expected''"
definition EXISTS :: string where "EXISTS = ''Exists''"
definition VALUE :: string where "VALUE = ''Value''"
definition ACTION :: string where "ACTION = ''Action''"
definition ITEM :: string where "ITEM = ''Item''"
definition KEY :: string where "KEY = ''Key''"
definition EQ :: string where "EQ = ''EQ''"

definition DESCRIBE_TABLE :: string where "DESCRIBE_TABLE = ''DescribeTable''"
definition CREATE_TABLE :: string where "CREATE_TABLE = ''CreateTable''"
definition UPDATE_ITEM :: string where "UPDATE_ITEM = ''UpdateItem''"
definition BATCH_WRITE_ITEM :: string where "BATCH_WRITE_ITEM = ''BatchWriteItem''"
definition SCAN :: string where "SCAN = ''Scan''"
definition QUERY :: string where "QUERY = ''Query''"

definition HTTP_OK :: int where "HTTP_OK = 200"
definition HTTP_BAD_REQUEST :: int where "HTTP_BAD_REQUEST = 400"

definition RETURN_CONSUMED_CAPACITY_VALUES :: "string list" where
  "RETURN_CONSUMED_CAPACITY_VALUES = [''INDEXES'', ''TOTAL'', ''NONE'']"
definition RETURN_VALUES_VALUES :: "string list" where
  "RETURN_VALUES_VALUES = [''NONE'', ''ALL_OLD'', ''UPDATED_OLD'', ''ALL_NEW'', ''UPDATED_NEW'']"
definition RETURN_ITEM_COLL_METRICS_VALUES :: "string list" where
  "RETURN_ITEM_COLL_METRICS_VALUES = [''SIZE'', ''NONE'']"
definition ATTR_UPDATE_ACTIONS :: "string list" where
  "ATTR_UPDATE_ACTIONS = [''PUT'', ''ADD'', ''DELETE'']"
definition SELECT_VALUES :: "string list" where
  "SELECT_VALUES =
     [''ALL_ATTRIBUTES'', ''ALL_PROJECTED_ATTRIBUTES'', ''SPECIFIC_ATTRIBUTES'', ''COUNT'']"

section \<open>MetaTable\<close>

text \<open>
  The description of a table as the remote store returns it under \<open>TABLE_KEY\<close>: the key
  schema and the attribute definitions, each an ordered sequence of entries with two
  string fields. \<open>MetaTable\<close> wraps it (or \<^verbatim>\<open>None\<close>, when the response had no such
  entry) together with the two memo fields \<^verbatim>\<open>_range_keyname\<close> and \<^verbatim>\<open>_hash_keyname\<close>.
\<close>

record key_schema_element =
  ks_AttributeName :: string
  ks_KeyType :: string

record attribute_definition =
  ad_AttributeName :: string
  ad_AttributeType :: string

record table_data =
  KeySchema :: "key_schema_element list"
  AttributeDefinitions :: "attribute_definition list"

record MetaTable =
  data :: "table_data option"
  p_range_keyname :: "string option"
  p_hash_keyname :: "string option"

definition MetaTable_init :: "table_data option \<Rightarrow> MetaTable" where
  "MetaTable_init d = \<lparr>data = d, p_range_keyname = None, p_hash_keyname = None\<rparr>"

text \<open>The loop of \<^verbatim>\<open>range_keyname\<close> has no \<^verbatim>\<open>break\<close>: the last RANGE entry wins.\<close>

fun range_keyname_loop :: "key_schema_element list \<Rightarrow> string option \<Rightarrow> string option" where
  "range_keyname_loop [] memo = memo"
| "range_keyname_loop (attr # rest) memo =
     (if ks_KeyType attr = RANGE then range_keyname_loop rest (Some (ks_AttributeName attr))
      else range_keyname_loop rest memo)"

definition range_keyname :: "MetaTable \<Rightarrow> (exn + string option) \<times> MetaTable" where
  "range_keyname self =
     (if p_range_keyname self = None then
        (case data self of
           None \<Rightarrow> (Inl AttributeError, self)
         | Some d \<Rightarrow>
             (let self' = self\<lparr>p_range_keyname :=
                            range_keyname_loop (KeySchema d) (p_range_keyname self)\<rparr>
              in (Inr (p_range_keyname self'), self')))
      else (Inr (p_range_keyname self), self))"

text \<open>The loop of \<^verbatim>\<open>hash_keyname\<close> stops at the first HASH entry.\<close>

fun hash_keyname_loop :: "key_schema_element list \<Rightarrow> string option \<Rightarrow> string option" where
  "hash_keyname_loop [] memo = memo"
| "hash_keyname_loop (attr # rest) memo =
     (if ks_KeyType attr = HASH then Some (ks_AttributeName attr)
      else hash_keyname_loop rest memo)"

definition hash_keyname :: "MetaTable \<Rightarrow> (exn + string option) \<times> MetaTable" where
  "hash_keyname self =
     (if p_hash_keyname self = None then
        (case data self of
           None \<Rightarrow> (Inl AttributeError, self)
         | Some d \<Rightarrow>
             (let self' = self\<lparr>p_hash_keyname :=
                            hash_keyname_loop (KeySchema d) (p_hash_keyname self)\<rparr>
              in (Inr (p_hash_keyname self'), self')))
      else (Inr (p_hash_keyname self), self))"

text \<open>
  \<^verbatim>\<open>get_attribute_type\<close> is also called with the result of \<^verbatim>\<open>hash_keyname\<close>, which may
  be \<^verbatim>\<open>None\<close>; \<^verbatim>\<open>None\<close> equals no declared name.
\<close>

definition opt_str :: "string option \<Rightarrow> pyval" where
  "opt_str x = (case x of None \<Rightarrow> PNone | Some s \<Rightarrow> PStr s)"

fun get_attribute_type_loop :: "attribute_definition list \<Rightarrow> string option \<Rightarrow> string option"
  where
  "get_attribute_type_loop [] attribute_name = None"
| "get_attribute_type_loop (attr # rest) attribute_name =
     (if Some (ad_AttributeName attr) = attribute_name then Some (ad_AttributeType attr)
      else get_attribute_type_loop rest attribute_name)"

definition get_attribute_type :: "MetaTable \<Rightarrow> string option \<Rightarrow> exn + string" where
  "get_attribute_type self attribute_name =
     (case data self of
        None \<Rightarrow> Inl AttributeError
      | Some d \<Rightarrow>
          (case get_attribute_type_loop (AttributeDefinitions d) attribute_name of
             Some t \<Rightarrow> Inr t
           | None \<Rightarrow>
               (let attr_names = map (\<lambda>attr. PStr (ad_AttributeName attr)) (AttributeDefinitions d)
                in Inl (ValueError ''No attribute {0} in {1}''
                          [opt_str attribute_name, PList attr_names]))))"


text \<open>
  State and exceptions together: a computation takes the state and returns either an
  exception or a value, with the state as it is at that point (a mutation made before a
  \<^verbatim>\<open>raise\<close> stays made).
\<close>

definition bind_se ::
  "('s \<Rightarrow> (exn + 'a) \<times> 's) \<Rightarrow> ('a \<Rightarrow> 's \<Rightarrow> (exn + 'b) \<times> 's) \<Rightarrow> 's \<Rightarrow> (exn + 'b) \<times> 's" where
  "bind_se m f s = (case m s of (Inl e, s') \<Rightarrow> (Inl e, s') | (Inr x, s') \<Rightarrow> f x s')"

definition return_se :: "'a \<Rightarrow> 's \<Rightarrow> (exn + 'a) \<times> 's" where
  "return_se x s = (Inr x, s)"

definition raise_se :: "exn \<Rightarrow> 's \<Rightarrow> (exn + 'a) \<times> 's" where
  "raise_se e s = (Inl e, s)"

text \<open>A computation that reads the state and may raise, but changes nothing.\<close>

definition lift_se :: "('s \<Rightarrow> exn + 'a) \<Rightarrow> 's \<Rightarrow> (exn + 'a) \<times> 's" where
  "lift_se f s = (f s, s)"

text \<open>\<^verbatim>\<open>if c: operation_kwargs.update(m)\<close>\<close>

definition update_when ::
  "bool \<Rightarrow> ('s \<Rightarrow> (exn + dict) \<times> 's) \<Rightarrow> dict \<Rightarrow> 's \<Rightarrow> (exn + dict) \<times> 's" where
  "update_when c m kwargs =
     (if c then bind_se m (\<lambda>e. return_se (dict_update kwargs e)) else return_se kwargs)"

text \<open>
  \<^verbatim>\<open>get_item_attribute_map\<close>: a value that is already a dictionary is passed through,
  any other value is tagged with the declared type of its attribute. \<open>pythonic\<close>, of
  \<^verbatim>\<open>pynamodb/connection/util.py\<close>, is not part of the source: it is the parameter
  \<open>py\<close> of every function that renames a key with it.
\<close>

fun item_attribute_loop :: "MetaTable \<Rightarrow> dict \<Rightarrow> dict \<Rightarrow> exn + dict" where
  "item_attribute_loop self [] acc = Inr acc"
| "item_attribute_loop self ((key, val) # rest) acc =
     (case val of
        PDict d \<Rightarrow> item_attribute_loop self rest (AList.update key val acc)
      | _ \<Rightarrow>
          (case get_attribute_type self (Some key) of
             Inl e \<Rightarrow> Inl e
           | Inr t \<Rightarrow> item_attribute_loop self rest (AList.update key (PDict [(t, val)]) acc)))"

definition get_item_attribute_map ::
  "(string \<Rightarrow> string) \<Rightarrow> MetaTable \<Rightarrow> dict \<Rightarrow> string \<Rightarrow> bool \<Rightarrow> exn + dict" where
  "get_item_attribute_map py self attributes item_key pythonic_key =
     (let item_key = (if pythonic_key then py item_key else item_key) in
      case item_attribute_loop self attributes [] of
        Inl e \<Rightarrow> Inl e
      | Inr m \<Rightarrow> Inr [(item_key, PDict m)])"

text \<open>
  \<^verbatim>\<open>{self.hash_keyname: {self.get_attribute_type(self.hash_keyname): v}}\<close>, the
  dictionary that \<^verbatim>\<open>get_identifier_map\<close> and \<^verbatim>\<open>get_exclusive_start_key_map\<close> build
  for a key. The property is read twice. When it is \<^verbatim>\<open>None\<close>,
  \<^verbatim>\<open>get_attribute_type\<close> has raised before the dictionary exists, so the last
  \<open>None\<close> case below is never reached.
\<close>

definition keyname_entry ::
  "(MetaTable \<Rightarrow> (exn + string option) \<times> MetaTable) \<Rightarrow> pyval \<Rightarrow> MetaTable
     \<Rightarrow> (exn + string \<times> pyval) \<times> MetaTable" where
  "keyname_entry keyname v =
     bind_se keyname (\<lambda>name.
     bind_se keyname (\<lambda>name'.
     bind_se (lift_se (\<lambda>self. get_attribute_type self name')) (\<lambda>t.
       case name of
         Some n \<Rightarrow> return_se (n, PDict [(t, v)])
       | None \<Rightarrow> raise_se TypeError)))"

definition get_identifier_map ::
  "(string \<Rightarrow> string) \<Rightarrow> pyval \<Rightarrow> pyval \<Rightarrow> string \<Rightarrow> MetaTable \<Rightarrow> (exn + dict) \<times> MetaTable"
  where
  "get_identifier_map py hash_key range_key key =
     bind_se (keyname_entry hash_keyname hash_key) (\<lambda>h.
       let kwargs = [(py key, PDict [h])] in
       if truthy range_key then
         bind_se (keyname_entry range_keyname range_key) (\<lambda>r.
           return_se (AList.update (py key)
                        (PDict (AList.update (fst r) (snd r) [h])) kwargs))
       else return_se kwargs)"

fun expected_loop :: "MetaTable \<Rightarrow> (string \<times> dict) list \<Rightarrow> dict \<Rightarrow> exn + dict" where
  "expected_loop self [] acc = Inr acc"
| "expected_loop self ((key, condition) # rest) acc =
     (if map_of condition EXISTS \<noteq> None then
        expected_loop self rest
          (AList.update key (PDict [(EXISTS, get_val condition EXISTS)]) acc)
      else if map_of condition VALUE \<noteq> None then
        (case get_attribute_type self (Some key) of
           Inl e \<Rightarrow> Inl e
         | Inr t \<Rightarrow>
             expected_loop self rest
               (AList.update key (PDict [(VALUE, PDict [(t, get_val condition VALUE)])]) acc))
      else expected_loop self rest acc)"

definition get_expected_map ::
  "(string \<Rightarrow> string) \<Rightarrow> MetaTable \<Rightarrow> (string \<times> dict) list \<Rightarrow> exn + dict" where
  "get_expected_map py self expected =
     (case expected_loop self expected [] of
        Inl e \<Rightarrow> Inl e
      | Inr m \<Rightarrow> Inr [(py EXPECTED, PDict m)])"

definition get_exclusive_start_key_map ::
  "(string \<Rightarrow> string) \<Rightarrow> pyval \<Rightarrow> MetaTable \<Rightarrow> (exn + dict) \<times> MetaTable" where
  "get_exclusive_start_key_map py exclusive_start_key =
     bind_se (keyname_entry hash_keyname exclusive_start_key) (\<lambda>h.
       return_se [(py EXCLUSIVE_START_KEY, PDict [h])])"

section \<open>Connection\<close>

text \<open>
  The transport is botocore's \<^verbatim>\<open>operation.call\<close>: given the name of the operation and
  the keyword arguments it returns a response and the decoded body. It is a parameter
  \<open>tr\<close>, which also sees the calls made before (a stub may answer differently each
  time). Of the body, the entry under \<open>TABLE_KEY\<close> is kept decoded. A connection holds
  the cache \<^verbatim>\<open>_tables\<close> and, as a ghost field, the log of the transport calls made so
  far. Looking up the botocore session, service, endpoint and operation objects makes no
  request and is not modelled.
\<close>

record response =
  ok :: bool
  status_code :: int
  content :: string

record response_data =
  Table :: "table_data option"
  body :: pyval

type_synonym transport =
  "(string \<times> dict) list \<Rightarrow> string \<Rightarrow> dict \<Rightarrow> response \<times> response_data"

record connection =
  tables :: "(string \<times> MetaTable) list"
  calls :: "(string \<times> dict) list"

definition call :: "transport \<Rightarrow> string \<Rightarrow> dict \<Rightarrow> connection
    \<Rightarrow> (exn + response \<times> response_data) \<times> connection" where
  "call tr operation operation_kwargs self =
     (Inr (tr (calls self) operation operation_kwargs),
      self\<lparr>calls := calls self @ [(operation, operation_kwargs)]\<rparr>)"

definition get_meta_table ::
  "(string \<Rightarrow> string) \<Rightarrow> transport \<Rightarrow> string \<Rightarrow> bool \<Rightarrow> connection
     \<Rightarrow> (exn + MetaTable option) \<times> connection" where
  "get_meta_table py tr table_name refresh self =
     (if map_of (tables self) table_name = None \<or> refresh then
        bind_se (call tr DESCRIBE_TABLE [(py TABLE_NAME, PStr table_name)])
          (\<lambda>(response, data) self.
             if \<not> ok response then
               (if status_code response = HTTP_BAD_REQUEST then (Inr None, self)
                else (Inl (TableError ''Unable to describe table: {0}''
                             [PStr (content response)]), self))
             else
               (let self' = self\<lparr>tables :=
                              AList.update table_name (MetaTable_init (Table data))
                                (tables self)\<rparr>
                in (Inr (map_of (tables self') table_name), self'))) self
      else (Inr (map_of (tables self) table_name), self))"

text \<open>
  \<^verbatim>\<open>self.get_meta_table(table_name).method(...)\<close>: the method runs on the object that
  the cache holds, so what it memoizes is seen by later calls. On \<^verbatim>\<open>None\<close> the
  method call raises \<open>AttributeError\<close>.
\<close>

definition on_meta_table ::
  "(string \<Rightarrow> string) \<Rightarrow> transport \<Rightarrow> string \<Rightarrow> (MetaTable \<Rightarrow> (exn + 'a) \<times> MetaTable)
     \<Rightarrow> connection \<Rightarrow> (exn + 'a) \<times> connection" where
  "on_meta_table py tr table_name method =
     bind_se (get_meta_table py tr table_name False) (\<lambda>tbl self.
       case tbl of
         None \<Rightarrow> (Inl AttributeError, self)
       | Some m \<Rightarrow>
           (case method m of
              (r, m') \<Rightarrow> (r, self\<lparr>tables := AList.update table_name m' (tables self)\<rparr>)))"

definition describe_table ::
  "(string \<Rightarrow> string) \<Rightarrow> transport \<Rightarrow> string \<Rightarrow> connection
     \<Rightarrow> (exn + table_data option) \<times> connection" where
  "describe_table py tr table_name =
     bind_se (get_meta_table py tr table_name True) (\<lambda>tbl.
       case tbl of
         Some m \<Rightarrow> return_se (data m)
       | None \<Rightarrow> return_se None)"

definition c_get_item_attribute_map ::
  "(string \<Rightarrow> string) \<Rightarrow> transport \<Rightarrow> string \<Rightarrow> dict \<Rightarrow> string \<Rightarrow> bool \<Rightarrow> connection
     \<Rightarrow> (exn + dict) \<times> connection" where
  "c_get_item_attribute_map py tr table_name attributes item_key pythonic_key =
     on_meta_table py tr table_name
       (lift_se (\<lambda>m. get_item_attribute_map py m attributes item_key pythonic_key))"

definition c_get_attribute_type ::
  "(string \<Rightarrow> string) \<Rightarrow> transport \<Rightarrow> string \<Rightarrow> string option \<Rightarrow> connection
     \<Rightarrow> (exn + string) \<times> connection" where
  "c_get_attribute_type py tr table_name attribute_name =
     on_meta_table py tr table_name (lift_se (\<lambda>m. get_attribute_type m attribute_name))"

definition c_get_identifier_map ::
  "(string \<Rightarrow> string) \<Rightarrow> transport \<Rightarrow> string \<Rightarrow> pyval \<Rightarrow> pyval \<Rightarrow> string \<Rightarrow> connection
     \<Rightarrow> (exn + dict) \<times> connection" where
  "c_get_identifier_map py tr table_name hash_key range_key key =
     on_meta_table py tr table_name (get_identifier_map py hash_key range_key key)"

definition c_get_expected_map ::
  "(string \<Rightarrow> string) \<Rightarrow> transport \<Rightarrow> string \<Rightarrow> (string \<times> dict) list \<Rightarrow> connection
     \<Rightarrow> (exn + dict) \<times> connection" where
  "c_get_expected_map py tr table_name expected =
     on_meta_table py tr table_name (lift_se (\<lambda>m. get_expected_map py m expected))"

definition c_get_exclusive_start_key_map ::
  "(string \<Rightarrow> string) \<Rightarrow> transport \<Rightarrow> string \<Rightarrow> pyval \<Rightarrow> connection
     \<Rightarrow> (exn + dict) \<times> connection" where
  "c_get_exclusive_start_key_map py tr table_name exclusive_start_key =
     on_meta_table py tr table_name (get_exclusive_start_key_map py exclusive_start_key)"

text \<open>
  The three option maps. The value is tested and emitted in upper case. The message of
  \<^verbatim>\<open>get_consumed_capacity_map\<close> names \<open>RETURN_ITEM_COLL_METRICS\<close>, as the source does.
\<close>

definition get_consumed_capacity_map :: "(string \<Rightarrow> string) \<Rightarrow> string \<Rightarrow> exn + dict" where
  "get_consumed_capacity_map py return_consumed_capacity =
     (if upper return_consumed_capacity \<notin> set RETURN_CONSUMED_CAPACITY_VALUES then
        Inl (ValueError ''{0} must be one of {1}''
               [PStr RETURN_ITEM_COLL_METRICS, PList (map PStr RETURN_CONSUMED_CAPACITY_VALUES)])
      else Inr [(py RETURN_CONSUMED_CAPACITY, PStr (upper return_consumed_capacity))])"

definition get_return_values_map :: "(string \<Rightarrow> string) \<Rightarrow> string \<Rightarrow> exn + dict" where
  "get_return_values_map py return_values =
     (if upper return_values \<notin> set RETURN_VALUES_VALUES then
        Inl (ValueError ''{0} must be one of {1}''
               [PStr RETURN_VALUES, PList (map PStr RETURN_VALUES_VALUES)])
      else Inr [(py RETURN_VALUES, PStr (upper return_values))])"

definition get_item_collection_map :: "(string \<Rightarrow> string) \<Rightarrow> string \<Rightarrow> exn + dict" where
  "get_item_collection_map py return_item_collection_metrics =
     (if upper return_item_collection_metrics \<notin> set RETURN_ITEM_COLL_METRICS_VALUES then
        Inl (ValueError ''{0} must be one of {1}''
               [PStr RETURN_ITEM_COLL_METRICS, PList (map PStr RETURN_ITEM_COLL_METRICS_VALUES)])
      else Inr [(py RETURN_ITEM_COLL_METRICS, PStr (upper return_item_collection_metrics))])"

text \<open>Truthiness of an optional string and of an optional list or dictionary.\<close>

definition truthy_str :: "string option \<Rightarrow> bool" where
  "truthy_str x = (case x of None \<Rightarrow> False | Some s \<Rightarrow> s \<noteq> [])"

definition truthy_opt :: "'a list option \<Rightarrow> bool" where
  "truthy_opt x = (case x of None \<Rightarrow> False | Some xs \<Rightarrow> xs \<noteq> [])"

definition entries :: "'a list option \<Rightarrow> 'a list" where
  "entries x = (case x of None \<Rightarrow> [] | Some xs \<Rightarrow> xs)"

definition str_of :: "string option \<Rightarrow> string" where
  "str_of x = (case x of None \<Rightarrow> [] | Some s \<Rightarrow> s)"


text \<open>\<^verbatim>\<open>if c: operation_kwargs.update(self.get_..._map(s))\<close> for the option maps.\<close>

definition update_option ::
  "string option \<Rightarrow> (string \<Rightarrow> exn + dict) \<Rightarrow> dict \<Rightarrow> connection \<Rightarrow> (exn + dict) \<times> connection"
  where
  "update_option x get_map kwargs =
     update_when (truthy_str x) (lift_se (\<lambda>self. get_map (str_of x))) kwargs"

subsection \<open>update_item\<close>

text \<open>
  The loop over \<^verbatim>\<open>attribute_updates.items()\<close>. The dictionary under
  \<open>pythonic(ATTR_UPDATES)\<close> is filled in \<open>acc\<close> and stored when the loop is done;
  the key has its place in \<open>operation_kwargs\<close> from the assignment before the loop.
\<close>

fun attribute_updates_loop ::
  "(string \<Rightarrow> string) \<Rightarrow> transport \<Rightarrow> string \<Rightarrow> (string \<times> dict) list \<Rightarrow> dict
     \<Rightarrow> connection \<Rightarrow> (exn + dict) \<times> connection" where
  "attribute_updates_loop py tr table_name [] acc = return_se acc"
| "attribute_updates_loop py tr table_name ((key, update) # rest) acc =
     bind_se (c_get_attribute_type py tr table_name (Some key)) (\<lambda>attr_type.
       let action = get_val update ACTION in
       if action \<notin> set (map PStr ATTR_UPDATE_ACTIONS) then
         raise_se (ValueError ''{0} must be one of {1}''
                     [PStr ACTION, PList (map PStr ATTR_UPDATE_ACTIONS)])
       else
         attribute_updates_loop py tr table_name rest
           (AList.update key
              (PDict [(ACTION, action), (VALUE, PDict [(attr_type, get_val update VALUE)])])
              acc))"

definition update_item ::
  "(string \<Rightarrow> string) \<Rightarrow> transport \<Rightarrow> string \<Rightarrow> pyval \<Rightarrow> pyval
     \<Rightarrow> (string \<times> dict) list option \<Rightarrow> (string \<times> dict) list option
     \<Rightarrow> string option \<Rightarrow> string option \<Rightarrow> string option
     \<Rightarrow> connection \<Rightarrow> (exn + response_data) \<times> connection" where
  "update_item py tr table_name hash_key range_key attribute_updates expected
     return_consumed_capacity return_item_collection_metrics return_values =
     bind_se (update_when True (c_get_identifier_map py tr table_name hash_key range_key KEY)
                [(py TABLE_NAME, PStr table_name)]) (\<lambda>kw1.
     bind_se (update_when (truthy_opt expected)
                (c_get_expected_map py tr table_name (entries expected)) kw1) (\<lambda>kw2.
     bind_se (update_option return_consumed_capacity (get_consumed_capacity_map py) kw2) (\<lambda>kw3.
     bind_se (update_option return_item_collection_metrics (get_item_collection_map py) kw3)
       (\<lambda>kw4.
     bind_se (update_option return_values (get_return_values_map py) kw4) (\<lambda>kw5.
       if \<not> truthy_opt attribute_updates then
         raise_se (ValueError ''{0} cannot be empty'' [PStr ATTR_UPDATES])
       else
         bind_se (attribute_updates_loop py tr table_name (entries attribute_updates) [])
           (\<lambda>updates.
         bind_se (call tr UPDATE_ITEM
                    (AList.update (py ATTR_UPDATES) (PDict updates)
                       (AList.update (py ATTR_UPDATES) (PDict []) kw5)))
           (\<lambda>(response, data).
              if \<not> ok response then
                raise_se (UpdateError ''Failed to update item: {0}'' [PStr (content response)])
              else return_se data)))))))"

subsection \<open>batch_write_item\<close>

text \<open>
  The two loops that wrap each item as a put request (under \<open>ITEM\<close>) or as a delete
  request (under \<open>KEY\<close>).
\<close>

fun request_items_loop ::
  "(string \<Rightarrow> string) \<Rightarrow> transport \<Rightarrow> string \<Rightarrow> string \<Rightarrow> string \<Rightarrow> dict list \<Rightarrow> pyval list
     \<Rightarrow> connection \<Rightarrow> (exn + pyval list) \<times> connection" where
  "request_items_loop py tr table_name request item_key [] acc = return_se acc"
| "request_items_loop py tr table_name request item_key (item # rest) acc =
     bind_se (c_get_item_attribute_map py tr table_name item item_key False) (\<lambda>m.
       request_items_loop py tr table_name request item_key rest
         (acc @ [PDict [(request, PDict m)]]))"

text \<open>\<^verbatim>\<open>d[k1][k2] = v\<close>: the value under \<open>k1\<close> has to be a dictionary.\<close>

definition set_nested :: "dict \<Rightarrow> string \<Rightarrow> string \<Rightarrow> pyval \<Rightarrow> exn + dict" where
  "set_nested d k1 k2 v =
     (case map_of d k1 of
        Some (PDict inner) \<Rightarrow> Inr (AList.update k1 (PDict (AList.update k2 v inner)) d)
      | _ \<Rightarrow> Inl TypeError)"

definition batch_write_item ::
  "(string \<Rightarrow> string) \<Rightarrow> transport \<Rightarrow> string \<Rightarrow> dict list option \<Rightarrow> dict list option
     \<Rightarrow> string option \<Rightarrow> string option
     \<Rightarrow> connection \<Rightarrow> (exn + response_data) \<times> connection" where
  "batch_write_item py tr table_name put_items delete_items
     return_consumed_capacity return_item_collection_metrics =
     (if put_items = None \<and> delete_items = None then
        raise_se (ValueError ''Either put_items or delete_items must be specified'' [])
      else
        bind_se (update_option return_consumed_capacity (get_consumed_capacity_map py)
                   [(py REQUEST_ITEMS, PDict [(table_name, PList [])])]) (\<lambda>kw1.
        bind_se (update_option return_item_collection_metrics (get_item_collection_map py) kw1)
          (\<lambda>kw2.
        bind_se (if truthy_opt put_items then
                   request_items_loop py tr table_name PUT_REQUEST ITEM (entries put_items) []
                 else return_se []) (\<lambda>put_items_list.
        bind_se (if truthy_opt delete_items then
                   request_items_loop py tr table_name DELETE_REQUEST KEY (entries delete_items) []
                 else return_se []) (\<lambda>delete_items_list.
        bind_se (lift_se (\<lambda>self. set_nested kw2 (py REQUEST_ITEMS) table_name
                                   (PList (delete_items_list @ put_items_list)))) (\<lambda>kw3.
        bind_se (call tr BATCH_WRITE_ITEM kw3) (\<lambda>(response, data).
          if \<not> ok response then
            raise_se (PutError ''Failed to batch write items: {0}'' [PStr (content response)])
          else return_se data)))))))"

subsection \<open>scan and query\<close>

text \<open>Iterating a Python value with \<^verbatim>\<open>for\<close>.\<close>

fun py_iter :: "pyval \<Rightarrow> exn + pyval list" where
  "py_iter (PList xs) = Inr xs"
| "py_iter (PStr s) = Inr (map (\<lambda>c. PStr [c]) s)"
| "py_iter (PDict d) = Inr (map (\<lambda>kv. PStr (fst kv)) d)"
| "py_iter PNone = Inl TypeError"
| "py_iter (PBool b) = Inl TypeError"
| "py_iter (PInt i) = Inl TypeError"

text \<open>
  \<^verbatim>\<open>{attr_type: value for value in values}\<close>: a dictionary comprehension with the one
  key \<open>attr_type\<close>, assigned once for each value.
\<close>

definition value_comprehension :: "string \<Rightarrow> pyval list \<Rightarrow> dict" where
  "value_comprehension attr_type vals = foldl (\<lambda>d v. AList.update attr_type v d) [] vals"

text \<open>
  The loop over the conditions of \<^verbatim>\<open>scan_filter\<close> and of \<^verbatim>\<open>key_conditions\<close>; the two
  differ in the set of operators they allow.
\<close>

fun conditions_loop ::
  "(string \<Rightarrow> string) \<Rightarrow> transport \<Rightarrow> string \<Rightarrow> string list \<Rightarrow> (string \<times> dict) list \<Rightarrow> dict
     \<Rightarrow> connection \<Rightarrow> (exn + dict) \<times> connection" where
  "conditions_loop py tr table_name allowed [] acc = return_se acc"
| "conditions_loop py tr table_name allowed ((key, condition) # rest) acc =
     bind_se (c_get_attribute_type py tr table_name (Some key)) (\<lambda>attr_type.
       let operator = get_val condition COMPARISON_OPERATOR in
       if operator \<notin> set (map PStr allowed) then
         raise_se (ValueError ''{0} must be one of {1}''
                     [PStr COMPARISON_OPERATOR, PList (map PStr allowed)])
       else
         bind_se (lift_se (\<lambda>self. py_iter (get_val condition ATTR_VALUE_LIST))) (\<lambda>vals.
           conditions_loop py tr table_name allowed rest
             (AList.update key
                (PDict [(ATTR_VALUE_LIST, PList [PDict (value_comprehension attr_type vals)]),
                        (COMPARISON_OPERATOR, operator)])
                acc)))"

definition assign_when :: "bool \<Rightarrow> string \<Rightarrow> pyval \<Rightarrow> dict \<Rightarrow> dict" where
  "assign_when c k v kwargs = (if c then AList.update k v kwargs else kwargs)"

definition scan ::
  "(string \<Rightarrow> string) \<Rightarrow> string list \<Rightarrow> transport \<Rightarrow> string \<Rightarrow> pyval \<Rightarrow> pyval
     \<Rightarrow> (string \<times> dict) list option \<Rightarrow> string option \<Rightarrow> pyval \<Rightarrow> pyval \<Rightarrow> pyval
     \<Rightarrow> connection \<Rightarrow> (exn + response_data) \<times> connection" where
  "scan py SCAN_FILTER_VALUES tr table_name attributes_to_get limit scan_filter
     return_consumed_capacity exclusive_start_key segment total_segments =
     (let kw1 = assign_when (attributes_to_get \<noteq> PNone) (py ATTRS_TO_GET) attributes_to_get
                  [(py TABLE_NAME, PStr table_name)];
          kw2 = assign_when (truthy limit) (py LIMIT) limit kw1 in
      bind_se (update_option return_consumed_capacity (get_consumed_capacity_map py) kw2) (\<lambda>kw3.
      bind_se (update_when (truthy exclusive_start_key)
                 (c_get_exclusive_start_key_map py tr table_name exclusive_start_key) kw3)
        (\<lambda>kw4.
        let kw5 = assign_when (truthy segment) (py SEGMENT) segment kw4;
            kw6 = assign_when (truthy total_segments) (py TOTAL_SEGMENTS) total_segments kw5 in
        bind_se (if truthy_opt scan_filter then
                   bind_se (conditions_loop py tr table_name SCAN_FILTER_VALUES
                              (entries scan_filter) []) (\<lambda>filter.
                     return_se (AList.update (py SCAN_FILTER) (PDict filter)
                                  (AList.update (py SCAN_FILTER) (PDict []) kw6)))
                 else return_se kw6) (\<lambda>kw7.
        bind_se (call tr SCAN kw7) (\<lambda>(response, data).
          if \<not> ok response then
            raise_se (ScanError ''Failed to scan table: {0}'' [PStr (content response)])
          else return_se data)))))"

text \<open>The block \<^verbatim>\<open>if select: ...\<close> of \<^verbatim>\<open>query\<close>.\<close>

definition query_select :: "(string \<Rightarrow> string) \<Rightarrow> string option \<Rightarrow> dict \<Rightarrow> exn + dict" where
  "query_select py select operation_kwargs =
     (if truthy_str select then
        (if upper (str_of select) \<notin> set SELECT_VALUES then
           Inl (ValueError ''{0} must be one of {1}''
                  [PStr SELECT, PList (map PStr SELECT_VALUES)])
         else Inr (AList.update (py SELECT) (PStr (upper (str_of select))) operation_kwargs))
      else Inr operation_kwargs)"

definition query ::
  "(string \<Rightarrow> string) \<Rightarrow> string list \<Rightarrow> transport \<Rightarrow> string \<Rightarrow> pyval \<Rightarrow> pyval \<Rightarrow> pyval
     \<Rightarrow> pyval \<Rightarrow> pyval \<Rightarrow> (string \<times> dict) list option \<Rightarrow> pyval \<Rightarrow> string option \<Rightarrow> pyval
     \<Rightarrow> string option \<Rightarrow> connection \<Rightarrow> (exn + response_data) \<times> connection" where
  "query py COMPARISON_OPERATOR_VALUES tr table_name hash_key attributes_to_get consistent_read
     exclusive_start_key index_name key_conditions limit return_consumed_capacity
     scan_index_forward select =
     (let kw1 = assign_when (truthy attributes_to_get) (py ATTRS_TO_GET) attributes_to_get
                  [(py TABLE_NAME, PStr table_name)];
          kw2 = assign_when (truthy consistent_read) (py CONSISTENT_READ) (PBool True) kw1 in
      bind_se (update_when (truthy exclusive_start_key)
                 (c_get_exclusive_start_key_map py tr table_name exclusive_start_key) kw2)
        (\<lambda>kw3.
        let kw4 = assign_when (truthy index_name) (py INDEX_NAME) index_name kw3;
            kw5 = assign_when (truthy limit) (py LIMIT) limit kw4 in
      bind_se (update_option return_consumed_capacity (get_consumed_capacity_map py) kw5) (\<lambda>kw6.
      bind_se (lift_se (\<lambda>self. query_select py select kw6)) (\<lambda>kw7.
        let kw8 = assign_when (scan_index_forward \<noteq> PNone) (py SCAN_INDEX_FORWARD)
                    scan_index_forward kw7 in
      bind_se (on_meta_table py tr table_name hash_keyname) (\<lambda>hash_keyname.
      bind_se (c_get_attribute_type py tr table_name hash_keyname) (\<lambda>hash_type.
      bind_se (case hash_keyname of
                 Some n \<Rightarrow>
                   return_se [(n, PDict [(ATTR_VALUE_LIST, PList [PDict [(hash_type, hash_key)]]),
                                         (COMPARISON_OPERATOR, PStr EQ)])]
               | None \<Rightarrow> raise_se TypeError) (\<lambda>base.
      bind_se (if truthy_opt key_conditions then
                 conditions_loop py tr table_name COMPARISON_OPERATOR_VALUES
                   (entries key_conditions) base
               else return_se base) (\<lambda>conditions.
      bind_se (call tr QUERY (AList.update (py KEY_CONDITIONS) (PDict conditions)
                                (AList.update (py KEY_CONDITIONS) (PDict base) kw8)))
        (\<lambda>(response, data).
          if \<not> ok response then
            raise_se (QueryError ''Failed to query items: {0}'' [PStr (content response)])
          else return_se data)))))))))"

subsection \<open>create_table\<close>

text \<open>
  The caller's attribute definitions, key-schema items and indexes are dictionaries
  under pythonic keys. The role of a key-schema item goes through \<^verbatim>\<open>str\<close>, which
  turns \<^verbatim>\<open>None\<close> into the text \<open>None\<close>; the items are taken with string values. An
  entry of \<^verbatim>\<open>key_schema_list\<close> is the pair of its \<open>ATTR_NAME\<close> and its
  \<open>KEY_TYPE\<close>; \<^verbatim>\<open>x.get(KEY_TYPE)\<close>, the sort key, is the second component. Python's
  \<^verbatim>\<open>sorted\<close> is stable and compares strings character by character, as \<open>sort_key\<close>
  does on \<open>string\<close>.
\<close>

definition py_str :: "string option \<Rightarrow> string" where
  "py_str x = (case x of None \<Rightarrow> ''None'' | Some s \<Rightarrow> s)"

definition key_schema_item :: "(string \<Rightarrow> string) \<Rightarrow> (string \<times> string) list \<Rightarrow> pyval \<times> string"
  where
  "key_schema_item py item =
     (opt_str (map_of item (py ATTR_NAME)), upper (py_str (map_of item (py KEY_TYPE))))"

definition key_schema_dict :: "pyval \<times> string \<Rightarrow> pyval" where
  "key_schema_dict x = PDict [(ATTR_NAME, fst x), (KEY_TYPE, PStr (snd x))]"

definition sorted_key_schema ::
  "(string \<Rightarrow> string) \<Rightarrow> (string \<times> string) list list \<Rightarrow> (pyval \<times> string) list" where
  "sorted_key_schema py key_schema = sort_key snd (map (key_schema_item py) key_schema)"

definition attribute_definition_dict :: "(string \<Rightarrow> string) \<Rightarrow> dict \<Rightarrow> pyval" where
  "attribute_definition_dict py attr =
     PDict [(ATTR_NAME, get_val attr (py ATTR_NAME)), (ATTR_TYPE, get_val attr (py ATTR_TYPE))]"

definition global_index_dict :: "(string \<Rightarrow> string) \<Rightarrow> dict \<Rightarrow> pyval" where
  "global_index_dict py index =
     PDict [(INDEX_NAME, get_val index (py INDEX_NAME)),
            (KEY_SCHEMA, get_val index (py KEY_SCHEMA)),
            (PROJECTION, get_val index (py PROJECTION)),
            (PROVISIONED_THROUGHPUT, get_val index (py PROVISIONED_THROUGHPUT))]"

definition local_index_dict :: "(string \<Rightarrow> string) \<Rightarrow> dict \<Rightarrow> pyval" where
  "local_index_dict py index =
     PDict [(INDEX_NAME, get_val index (py INDEX_NAME)),
            (KEY_SCHEMA, get_val index (py KEY_SCHEMA)),
            (PROJECTION, get_val index (py PROJECTION))]"

definition create_table_kwargs ::
  "(string \<Rightarrow> string) \<Rightarrow> string \<Rightarrow> dict list option \<Rightarrow> (string \<times> string) list list option
     \<Rightarrow> pyval \<Rightarrow> pyval \<Rightarrow> dict list option \<Rightarrow> dict list option \<Rightarrow> exn + dict" where
  "create_table_kwargs py table_name attribute_definitions key_schema read_capacity_units
     write_capacity_units global_secondary_indexes local_secondary_indexes =
     (let kw1 = dict_update []
                  [(py TABLE_NAME, PStr table_name),
                   (py PROVISIONED_THROUGHPUT,
                    PDict [(READ_CAPACITY_UNITS, read_capacity_units),
                           (WRITE_CAPACITY_UNITS, write_capacity_units)])] in
      case attribute_definitions of
        None \<Rightarrow> Inl (ValueError ''attribute_definitions argument is required'' [])
      | Some attrs \<Rightarrow>
          (let kw2 = AList.update (py ATTR_DEFINITIONS)
                       (PList (map (attribute_definition_dict py) attrs)) kw1;
               kw3 = assign_when (truthy_opt global_secondary_indexes)
                       (py GLOBAL_SECONDARY_INDEXES)
                       (PList (map (global_index_dict py) (entries global_secondary_indexes)))
                       kw2 in
           case key_schema of
             None \<Rightarrow> Inl (ValueError ''key_schema is required'' [])
           | Some ks \<Rightarrow>
               (let kw4 = AList.update (py KEY_SCHEMA)
                            (PList (map key_schema_dict (sorted_key_schema py ks))) kw3;
                    kw5 = assign_when (truthy_opt local_secondary_indexes)
                            (py LOCAL_SECONDARY_INDEXES)
                            (PList (map (local_index_dict py) (entries local_secondary_indexes)))
                            kw4 in
                Inr kw5)))"

definition create_table ::
  "(string \<Rightarrow> string) \<Rightarrow> transport \<Rightarrow> string \<Rightarrow> dict list option
     \<Rightarrow> (string \<times> string) list list option \<Rightarrow> pyval \<Rightarrow> pyval \<Rightarrow> dict list option
     \<Rightarrow> dict list option \<Rightarrow> connection \<Rightarrow> (exn + response_data) \<times> connection" where
  "create_table py tr table_name attribute_definitions key_schema read_capacity_units
     write_capacity_units global_secondary_indexes local_secondary_indexes =
     bind_se (lift_se (\<lambda>self. create_table_kwargs py table_name attribute_definitions key_schema
                         read_capacity_units write_capacity_units global_secondary_indexes
                         local_secondary_indexes)) (\<lambda>operation_kwargs.
     bind_se (call tr CREATE_TABLE operation_kwargs) (\<lambda>(response, data).
       if status_code response \<noteq> HTTP_OK then
         raise_se (TableError ''Failed to create table: {0}'' [PStr (content response)])
       else return_se data))"


section \<open>Reasoning about computations\<close>

text \<open>
  \<open>hoare P m Q E\<close>: started in a state where \<open>P\<close> holds, \<open>m\<close> either returns a
  value and a state that satisfy \<open>Q\<close> or raises an exception that satisfies \<open>E\<close>
  together with the state it leaves.
\<close>

definition hoare ::
  "('s \<Rightarrow> bool) \<Rightarrow> ('s \<Rightarrow> (exn + 'a) \<times> 's) \<Rightarrow> ('a \<Rightarrow> 's \<Rightarrow> bool) \<Rightarrow> (exn \<Rightarrow> 's \<Rightarrow> bool) \<Rightarrow> bool"
  where
  "hoare P m Q E =
     (\<forall>s. P s \<longrightarrow> (case m s of (Inl e, s') \<Rightarrow> E e s' | (Inr x, s') \<Rightarrow> Q x s'))"

text \<open>The \<open>MetaTable\<close> wraps a table description.\<close>

definition has_data :: "MetaTable \<Rightarrow> bool" where
  "has_data m = (data m \<noteq> None)"

text \<open>The description of \<open>table_name\<close> is in the cache.\<close>

definition cached :: "string \<Rightarrow> connection \<Rightarrow> bool" where
  "cached table_name self = (map_of (tables self) table_name \<noteq> None)"

text \<open>It is in the cache and holds a table description.\<close>

definition described :: "string \<Rightarrow> connection \<Rightarrow> bool" where
  "described table_name self =
     (case map_of (tables self) table_name of None \<Rightarrow> False | Some m \<Rightarrow> has_data m)"

text \<open>The one request that fetching the description of \<open>table_name\<close> makes.\<close>

definition describe_call :: "(string \<Rightarrow> string) \<Rightarrow> string \<Rightarrow> string \<times> dict" where
  "describe_call py table_name = (DESCRIBE_TABLE, [(py TABLE_NAME, PStr table_name)])"


text \<open>The description is in the cache and the log of requests is \<open>log\<close>.\<close>

definition cached_calls :: "string \<Rightarrow> (string \<times> dict) list \<Rightarrow> connection \<Rightarrow> bool" where
  "cached_calls table_name log self = (cached table_name self \<and> calls self = log)"

section \<open>Sample tables, connections and transports\<close>

text \<open>
  A table with hash key \<open>pk\<close> and range key \<open>sk\<close>, both strings; a connection that has
  it in the cache and one with an empty cache; a transport that answers every request
  with success and the description of that table, one that answers with the
  bad-request status, and one that answers with a server error.
\<close>

text \<open>
  A sample renaming for the parameter \<open>py\<close>: a capital letter becomes its small letter,
  after an underscore unless it is the first character (\<open>TableName\<close> becomes
  \<open>table_name\<close>).
\<close>

definition lower_char :: "char \<Rightarrow> char" where
  "lower_char c =
     (case map_of (zip ''ABCDEFGHIJKLMNOPQRSTUVWXYZ'' ''abcdefghijklmnopqrstuvwxyz'') c of
        None \<Rightarrow> c
      | Some l \<Rightarrow> l)"

fun snake_tail :: "string \<Rightarrow> string" where
  "snake_tail [] = []"
| "snake_tail (c # cs) =
     (if lower_char c \<noteq> c then CHR ''_'' # lower_char c # snake_tail cs
      else c # snake_tail cs)"

fun snake_case :: "string \<Rightarrow> string" where
  "snake_case [] = []"
| "snake_case (c # cs) = lower_char c # snake_tail cs"

definition sample_table :: table_data where
  "sample_table =
     \<lparr>KeySchema = [\<lparr>ks_AttributeName = ''pk'', ks_KeyType = ''HASH''\<rparr>,
                   \<lparr>ks_AttributeName = ''sk'', ks_KeyType = ''RANGE''\<rparr>],
      AttributeDefinitions = [\<lparr>ad_AttributeName = ''pk'', ad_AttributeType = ''S''\<rparr>,
                              \<lparr>ad_AttributeName = ''sk'', ad_AttributeType = ''S''\<rparr>]\<rparr>"

definition range_only_table :: table_data where
  "range_only_table =
     \<lparr>KeySchema = [\<lparr>ks_AttributeName = ''sk'', ks_KeyType = ''RANGE''\<rparr>],
      AttributeDefinitions = [\<lparr>ad_AttributeName = ''sk'', ad_AttributeType = ''S''\<rparr>]\<rparr>"

definition new_connection :: connection where
  "new_connection = \<lparr>tables = [], calls = []\<rparr>"

definition sample_connection :: connection where
  "sample_connection = \<lparr>tables = [(''t'', MetaTable_init (Some sample_table))], calls = []\<rparr>"

definition transport_ok :: transport where
  "transport_ok log operation kwargs =
     (\<lparr>ok = True, status_code = 200, content = []\<rparr>,
      \<lparr>Table = Some sample_table, body = PNone\<rparr>)"

definition transport_bad_request :: transport where
  "transport_bad_request log operation kwargs =
     (\<lparr>ok = False, status_code = 400, content = ''no such table''\<rparr>,
      \<lparr>Table = None, body = PNone\<rparr>)"

definition transport_down :: transport where
  "transport_down log operation kwargs =
     (\<lparr>ok = False, status_code = 500, content = ''down''\<rparr>,
      \<lparr>Table = None, body = PNone\<rparr>)"


section \<open>The sample renaming on the request fields\<close>

lemma snake_case_names:
  "snake_case TABLE_NAME = ''table_name''"
  "snake_case KEY_SCHEMA = ''key_schema''"
  "snake_case KEY_TYPE = ''key_type''"
  "snake_case ATTR_NAME = ''attribute_name''"
  "snake_case ATTR_TYPE = ''attribute_type''"
  "snake_case ATTR_DEFINITIONS = ''attribute_definitions''"
  "snake_case ATTR_UPDATES = ''attribute_updates''"
  "snake_case ATTRS_TO_GET = ''attributes_to_get''"
  "snake_case CONSISTENT_READ = ''consistent_read''"
  "snake_case EXCLUSIVE_START_KEY = ''exclusive_start_key''"
  "snake_case SCAN_INDEX_FORWARD = ''scan_index_forward''"
  "snake_case KEY_CONDITIONS = ''key_conditions''"
  "snake_case SCAN_FILTER = ''scan_filter''"
  "snake_case REQUEST_ITEMS = ''request_items''"
  "snake_case RETURN_VALUES = ''return_values''"
  "snake_case RETURN_CONSUMED_CAPACITY = ''return_consumed_capacity''"
  "snake_case RETURN_ITEM_COLL_METRICS = ''return_item_collection_metrics''"
  "snake_case PROVISIONED_THROUGHPUT = ''provisioned_throughput''"
  "snake_case GLOBAL_SECONDARY_INDEXES = ''global_secondary_indexes''"
  "snake_case LOCAL_SECONDARY_INDEXES = ''local_secondary_indexes''"
  "snake_case INDEX_NAME = ''index_name''"
  "snake_case PROJECTION = ''projection''"
  "snake_case SEGMENT = ''segment''"
  "snake_case TOTAL_SEGMENTS = ''total_segments''"
  "snake_case SELECT = ''select''"
  "snake_case LIMIT = ''limit''"
  "snake_case EXPECTED = ''expected''"
  "snake_case ITEM = ''item''"
  "snake_case KEY = ''key''"
  by (simp_all add: lower_char_def TABLE_NAME_def KEY_SCHEMA_def KEY_TYPE_def ATTR_NAME_def
        ATTR_TYPE_def ATTR_DEFINITIONS_def ATTR_UPDATES_def ATTRS_TO_GET_def
        CONSISTENT_READ_def EXCLUSIVE_START_KEY_def SCAN_INDEX_FORWARD_def KEY_CONDITIONS_def
        SCAN_FILTER_def REQUEST_ITEMS_def RETURN_VALUES_def RETURN_CONSUMED_CAPACITY_def
        RETURN_ITEM_COLL_METRICS_def PROVISIONED_THROUGHPUT_def GLOBAL_SECONDARY_INDEXES_def
        LOCAL_SECONDARY_INDEXES_def INDEX_NAME_def PROJECTION_def SEGMENT_def
        TOTAL_SEGMENTS_def SELECT_def LIMIT_def EXPECTED_def ITEM_def KEY_def)

section \<open>Rules for computations\<close>

lemma hoare_bind:
  assumes "hoare P m R E" and "\<And>x. hoare (R x) (f x) Q E"
  shows "hoare P (bind_se m f) Q E"
  using assms unfolding hoare_def bind_se_def
  by (fastforce split: prod.splits sum.splits)

lemma hoare_return: "(\<And>s. P s \<Longrightarrow> Q x s) \<Longrightarrow> hoare P (return_se x) Q E"
  by (simp add: hoare_def return_se_def)

lemma hoare_raise: "(\<And>s. P s \<Longrightarrow> E e s) \<Longrightarrow> hoare P (raise_se e) Q E"
  by (simp add: hoare_def raise_se_def)

lemma hoare_lift:
  "(\<And>s. P s \<Longrightarrow> (case f s of Inl e \<Rightarrow> E e s | Inr x \<Rightarrow> Q x s)) \<Longrightarrow> hoare P (lift_se f) Q E"
  by (auto simp: hoare_def lift_se_def split: sum.splits)

lemma hoare_update_when:
  "hoare P m (\<lambda>x. P) E \<Longrightarrow> hoare P (update_when c m kw) (\<lambda>x. P) E"
  unfolding update_when_def
  by (auto intro!: hoare_bind hoare_return)

lemma get_attribute_type_loop_None [simp]: "get_attribute_type_loop defs None = None"
  by (induction defs) auto

lemma get_attribute_type_errors:
  "has_data m \<Longrightarrow> get_attribute_type m n = Inl e \<Longrightarrow> is_ValueError e"
  by (auto simp: get_attribute_type_def has_data_def Let_def split: option.splits)

lemma keyname_entry_hash:
  "hoare has_data (keyname_entry hash_keyname v)
     (\<lambda>x. has_data) (\<lambda>e m. has_data m \<and> is_ValueError e)"
  unfolding hoare_def keyname_entry_def bind_se_def lift_se_def hash_keyname_def
    return_se_def raise_se_def has_data_def
  by (auto simp: Let_def  get_attribute_type_def split: option.splits sum.splits prod.splits if_splits)

lemma keyname_entry_range:
  "hoare has_data (keyname_entry range_keyname v)
     (\<lambda>x. has_data) (\<lambda>e m. has_data m \<and> is_ValueError e)"
  unfolding hoare_def keyname_entry_def bind_se_def lift_se_def range_keyname_def
    return_se_def raise_se_def has_data_def
  by (auto simp: Let_def  get_attribute_type_def split: option.splits sum.splits prod.splits if_splits)

lemma get_identifier_map_described:
  "hoare has_data (get_identifier_map py hash_key range_key key)
     (\<lambda>x. has_data) (\<lambda>e m. has_data m \<and> is_ValueError e)"
  unfolding get_identifier_map_def Let_def
  by (intro hoare_bind[OF keyname_entry_hash])
     (auto intro!: hoare_bind[OF keyname_entry_range] hoare_return)

lemma expected_loop_errors:
  "has_data m \<Longrightarrow> expected_loop m expected acc = Inl e \<Longrightarrow> is_ValueError e"
  by (induction m expected acc rule: expected_loop.induct)
     (auto split: if_splits sum.splits dest: get_attribute_type_errors)

lemma get_expected_map_errors:
  "has_data m \<Longrightarrow> get_expected_map py m expected = Inl e \<Longrightarrow> is_ValueError e"
  by (auto simp: get_expected_map_def split: sum.splits dest: expected_loop_errors)

lemma get_expected_map_described:
  "hoare has_data (lift_se (\<lambda>m. get_expected_map py m expected))
     (\<lambda>x. has_data) (\<lambda>e m. has_data m \<and> is_ValueError e)"
  by (rule hoare_lift) (auto split: sum.splits dest: get_expected_map_errors)

lemma on_meta_table_described:
  assumes "hoare has_data method (\<lambda>x. has_data) (\<lambda>e m. has_data m \<and> is_ValueError e)"
  shows "hoare (\<lambda>s. described t s \<and> calls s = cs) (on_meta_table py tr t method)
           (\<lambda>x s. described t s \<and> calls s = cs)
           (\<lambda>e s. (described t s \<and> calls s = cs) \<and> is_ValueError e)"
  using assms
  unfolding hoare_def on_meta_table_def get_meta_table_def bind_se_def described_def
  by (fastforce simp: update_conv' split: option.splits prod.splits sum.splits)

lemma option_map_errors:
  "get_consumed_capacity_map py x = Inl e \<Longrightarrow> is_ValueError e"
  "get_item_collection_map py x = Inl e \<Longrightarrow> is_ValueError e"
  "get_return_values_map py x = Inl e \<Longrightarrow> is_ValueError e"
  by (auto simp: get_consumed_capacity_map_def get_item_collection_map_def
        get_return_values_map_def split: if_splits)

lemma update_option_value_error:
  assumes "\<And>x e. get_map x = Inl e \<Longrightarrow> is_ValueError e"
  shows "hoare P (update_option x get_map kw) (\<lambda>x. P) (\<lambda>e s. P s \<and> is_ValueError e)"
  unfolding update_option_def
  by (intro hoare_update_when hoare_lift) (auto split: sum.splits dest: assms)

lemma update_item_empty_described:
  assumes "\<not> truthy_opt attribute_updates"
  shows "hoare (\<lambda>s. described t s \<and> calls s = cs)
           (update_item py tr t hash_key range_key attribute_updates expected rcc ricm rv)
           (\<lambda>x s. False)
           (\<lambda>e s. (described t s \<and> calls s = cs) \<and> is_ValueError e)"
  unfolding update_item_def
  apply (rule hoare_bind[OF hoare_update_when])
   apply (unfold c_get_identifier_map_def)
   apply (rule on_meta_table_described[OF get_identifier_map_described])
  apply (rule hoare_bind[OF hoare_update_when])
   apply (unfold c_get_expected_map_def)
   apply (rule on_meta_table_described[OF get_expected_map_described])
  apply (rule hoare_bind[OF update_option_value_error])
   apply (erule option_map_errors)
  apply (rule hoare_bind[OF update_option_value_error])
   apply (erule option_map_errors)
  apply (rule hoare_bind[OF update_option_value_error])
   apply (erule option_map_errors)
  using assms apply (simp add: hoare_raise)
  done


lemma hoareD:
  "hoare P m Q E \<Longrightarrow> P s \<Longrightarrow> m s = (r, s') \<Longrightarrow> (case r of Inl e \<Rightarrow> E e s' | Inr x \<Rightarrow> Q x s')"
  by (auto simp: hoare_def split: sum.splits)

lemma hoare_weaken:
  assumes "hoare P m Q E" and "\<And>x s. Q x s \<Longrightarrow> Q' x s" and "\<And>e s. E e s \<Longrightarrow> E' e s"
  shows "hoare P m Q' E'"
  using assms unfolding hoare_def by (fastforce split: prod.splits sum.splits)

lemma on_meta_table_cached:
  "hoare (cached_calls t log) (on_meta_table py tr t method)
     (\<lambda>x. cached_calls t log) (\<lambda>e. cached_calls t log)"
  unfolding hoare_def on_meta_table_def get_meta_table_def bind_se_def cached_calls_def cached_def
  by (auto simp: update_conv' split: option.splits prod.splits sum.splits)

lemma on_meta_table_uncached:
  assumes "\<not> cached t c"
  shows "hoare (\<lambda>s. s = c) (on_meta_table py tr t method)
           (\<lambda>x. cached_calls t (calls c @ [describe_call py t]))
           (\<lambda>e s. calls s = calls c @ [describe_call py t])"
  using assms
  unfolding hoare_def on_meta_table_def get_meta_table_def bind_se_def call_def
    cached_calls_def cached_def describe_call_def
  by (auto simp: update_conv' Let_def split: option.splits prod.splits sum.splits)

lemma update_option_keeps:
  "hoare P (update_option x get_map kw) (\<lambda>x. P) (\<lambda>e. P)"
  unfolding update_option_def
  by (auto intro!: hoare_update_when hoare_lift split: sum.splits)

lemma update_item_empty_cached:
  assumes "\<not> truthy_opt attribute_updates"
  shows "hoare (cached_calls t log)
           (update_item py tr t hash_key range_key attribute_updates expected rcc ricm rv)
           (\<lambda>x s. False) (\<lambda>e. cached_calls t log)"
  unfolding update_item_def c_get_identifier_map_def c_get_expected_map_def
  apply (rule hoare_bind[OF hoare_update_when[OF on_meta_table_cached]])
  apply (rule hoare_bind[OF hoare_update_when[OF on_meta_table_cached]])
  apply (rule hoare_bind[OF update_option_keeps])+
  using assms apply (simp add: hoare_raise)
  done

lemma update_item_empty_uncached:
  assumes "\<not> truthy_opt attribute_updates" and "\<not> cached t c"
  shows "hoare (\<lambda>s. s = c)
           (update_item py tr t hash_key range_key attribute_updates expected rcc ricm rv)
           (\<lambda>x s. False) (\<lambda>e s. calls s = calls c @ [describe_call py t])"
  unfolding update_item_def c_get_identifier_map_def c_get_expected_map_def
  apply (rule hoare_bind[where R="\<lambda>x. cached_calls t (calls c @ [describe_call py t])"])
   apply (simp add: update_when_def)
   apply (rule hoare_bind[OF on_meta_table_uncached[OF assms(2)]])
   apply (simp add: hoare_return)
  apply (rule hoare_weaken[where Q="\<lambda>x s. False"
          and E="\<lambda>e. cached_calls t (calls c @ [describe_call py t])"])
    apply (rule hoare_bind[OF hoare_update_when[OF on_meta_table_cached]])
    apply (rule hoare_bind[OF update_option_keeps])+
  subgoal using assms(1) by (simp add: hoare_raise)
  subgoal by simp
  subgoal by (simp add: cached_calls_def)
  done


section \<open>MetaTable: key names and attribute types\<close>

lemma find_SomeD: "find P xs = Some x \<Longrightarrow> x \<in> set xs \<and> P x"
  by (induction xs) (auto split: if_splits)

lemma hash_keyname_loop_find:
  "hash_keyname_loop ks memo =
     (case find (\<lambda>attr. ks_KeyType attr = HASH) ks of
        None \<Rightarrow> memo
      | Some attr \<Rightarrow> Some (ks_AttributeName attr))"
  by (induction ks) auto

lemma get_attribute_type_loop_find:
  "get_attribute_type_loop defs (Some n) =
     map_option ad_AttributeType (find (\<lambda>attr. ad_AttributeName attr = n) defs)"
  by (induction defs) auto

text \<open>
  C2, as amended. \<^verbatim>\<open>hash_keyname\<close> of a table description returns the attribute name
  of the first key-schema entry whose role is HASH. When the key schema has no HASH
  entry it raises nothing and returns \<^verbatim>\<open>None\<close>. Reading the property again gives the
  same result.
\<close>

theorem hash_keyname_first_hash_or_none:
  "(\<forall>attr. find (\<lambda>attr. ks_KeyType attr = HASH) (KeySchema d) = Some attr \<longrightarrow>
      fst (hash_keyname (MetaTable_init (Some d))) = Inr (Some (ks_AttributeName attr))) \<and>
   ((\<forall>attr \<in> set (KeySchema d). ks_KeyType attr \<noteq> HASH) \<longrightarrow>
      fst (hash_keyname (MetaTable_init (Some d))) = Inr None) \<and>
   fst (hash_keyname (snd (hash_keyname (MetaTable_init (Some d))))) =
     fst (hash_keyname (MetaTable_init (Some d)))"
  by (auto simp: hash_keyname_def MetaTable_init_def hash_keyname_loop_find Let_def find_None_iff
        split: option.splits dest: find_SomeD)

theorem hash_keyname_first_hash_or_none_witness:
  "fst (hash_keyname (MetaTable_init (Some sample_table))) = Inr (Some ''pk'') \<and>
   fst (hash_keyname (MetaTable_init (Some range_only_table))) = Inr None"
  using hash_keyname_first_hash_or_none [of sample_table]
    hash_keyname_first_hash_or_none [of range_only_table]
  by (simp add: sample_table_def range_only_table_def HASH_def)

text \<open>
  C2 as stated fails: the key schema of \<open>range_only_table\<close> has no HASH entry, and
  \<^verbatim>\<open>hash_keyname\<close> returns \<^verbatim>\<open>None\<close> instead of raising.
\<close>

theorem hash_keyname_no_hash_returns_none:
  "hash_keyname (MetaTable_init (Some range_only_table)) =
     (Inr None, MetaTable_init (Some range_only_table))"
  by (simp add: hash_keyname_def MetaTable_init_def range_only_table_def HASH_def)

text \<open>
  C6. For a name that no attribute definition declares, \<^verbatim>\<open>get_attribute_type\<close> raises
  the \<open>ValueError\<close> whose message is formatted from the name and the list of the
  declared names, in their order. For a declared name it returns the type of the first
  definition of that name; when the declared names are distinct, every definition gets its
  own type.
\<close>

theorem get_attribute_type_declared_or_unknown:
  assumes "data self = Some d"
  shows "(attribute_name \<notin> set (map ad_AttributeName (AttributeDefinitions d)) \<longrightarrow>
            get_attribute_type self (Some attribute_name) =
              Inl (ValueError ''No attribute {0} in {1}''
                     [PStr attribute_name,
                      PList (map (\<lambda>attr. PStr (ad_AttributeName attr))
                               (AttributeDefinitions d))])) \<and>
         (\<forall>attr. find (\<lambda>a. ad_AttributeName a = attribute_name) (AttributeDefinitions d)
                    = Some attr \<longrightarrow>
            get_attribute_type self (Some attribute_name) = Inr (ad_AttributeType attr)) \<and>
         (distinct (map ad_AttributeName (AttributeDefinitions d)) \<longrightarrow>
            (\<forall>attr \<in> set (AttributeDefinitions d).
               get_attribute_type self (Some (ad_AttributeName attr))
                 = Inr (ad_AttributeType attr)))"
proof (intro conjI impI allI ballI)
  assume "attribute_name \<notin> set (map ad_AttributeName (AttributeDefinitions d))"
  then have "find (\<lambda>a. ad_AttributeName a = attribute_name) (AttributeDefinitions d) = None"
    by (auto simp: find_None_iff)
  then show "get_attribute_type self (Some attribute_name) =
              Inl (ValueError ''No attribute {0} in {1}''
                     [PStr attribute_name,
                      PList (map (\<lambda>attr. PStr (ad_AttributeName attr))
                               (AttributeDefinitions d))])"
    using assms by (simp add: get_attribute_type_def get_attribute_type_loop_find opt_str_def)
next
  fix attr
  assume "find (\<lambda>a. ad_AttributeName a = attribute_name) (AttributeDefinitions d) = Some attr"
  then show "get_attribute_type self (Some attribute_name) = Inr (ad_AttributeType attr)"
    using assms by (simp add: get_attribute_type_def get_attribute_type_loop_find)
next
  fix attr
  assume dist: "distinct (map ad_AttributeName (AttributeDefinitions d))"
    and mem: "attr \<in> set (AttributeDefinitions d)"
  have "find (\<lambda>a. ad_AttributeName a = ad_AttributeName attr) defs = Some attr"
    if "distinct (map ad_AttributeName defs)" "attr \<in> set defs" for defs
    using that by (induction defs) (auto simp: image_iff)
  from this[OF dist mem]
  show "get_attribute_type self (Some (ad_AttributeName attr)) = Inr (ad_AttributeType attr)"
    using assms by (simp add: get_attribute_type_def get_attribute_type_loop_find)
qed

theorem get_attribute_type_declared_or_unknown_witness:
  "get_attribute_type (MetaTable_init (Some sample_table)) (Some ''color'') =
     Inl (ValueError ''No attribute {0} in {1}''
            [PStr ''color'', PList [PStr ''pk'', PStr ''sk'']]) \<and>
   get_attribute_type (MetaTable_init (Some sample_table)) (Some ''sk'') = Inr ''S''"
  using get_attribute_type_declared_or_unknown
          [of "MetaTable_init (Some sample_table)" sample_table "''color''"]
        get_attribute_type_declared_or_unknown
          [of "MetaTable_init (Some sample_table)" sample_table "''sk''"]
  by (simp add: MetaTable_init_def sample_table_def)

section \<open>update_item with no attribute updates\<close>

text \<open>
  C3, as amended. When \<^verbatim>\<open>attribute_updates\<close> is absent or empty, \<^verbatim>\<open>update_item\<close>
  always raises, and the UpdateItem request is never sent. The identifier map is built
  first, from the description of the table: when that is in the cache no request at all
  is made, otherwise exactly one DescribeTable request precedes the failure. When the
  cache holds a table description the exception is a \<open>ValueError\<close>.
\<close>

theorem update_item_empty_updates:
  assumes "attribute_updates = None \<or> attribute_updates = Some []"
  shows "\<exists>e self'.
           update_item py tr table_name hash_key range_key attribute_updates expected
             return_consumed_capacity return_item_collection_metrics return_values self
             = (Inl e, self') \<and>
           calls self' =
             (if cached table_name self then calls self
              else calls self @ [(DESCRIBE_TABLE, [(py TABLE_NAME, PStr table_name)])]) \<and>
           (described table_name self \<longrightarrow> is_ValueError e)"
proof -
  let ?m = "update_item py tr table_name hash_key range_key attribute_updates expected
             return_consumed_capacity return_item_collection_metrics return_values"
  have empty: "\<not> truthy_opt attribute_updates"
    using assms by (auto simp: truthy_opt_def)
  obtain r self' where res: "?m self = (r, self')"
    by (cases "?m self")
  have "\<exists>e. r = Inl e \<and>
          calls self' = (if cached table_name self then calls self
                         else calls self @ [describe_call py table_name])"
  proof (cases "cached table_name self")
    case True
    then have "cached_calls table_name (calls self) self"
      by (simp add: cached_calls_def)
    from hoareD[OF update_item_empty_cached[OF empty] this res] True
    show ?thesis by (cases r) (auto simp: cached_calls_def)
  next
    case False
    from hoareD[OF update_item_empty_uncached[OF empty False] refl res] False
    show ?thesis by (cases r) auto
  qed
  then obtain e where e: "r = Inl e"
    and log: "calls self' = (if cached table_name self then calls self
                             else calls self @ [describe_call py table_name])"
    by blast
  have "is_ValueError e" if "described table_name self"
    using hoareD[OF update_item_empty_described[OF empty, where cs="calls self"] _ res] that e
    by auto
  with e log res show ?thesis
    by (auto simp: describe_call_def)
qed


theorem update_item_empty_updates_witness:
  "\<exists>e self'.
     update_item snake_case transport_ok ''t'' (PStr ''a'') PNone (Some []) None None None None
       sample_connection = (Inl e, self') \<and>
     calls self' = [] \<and> is_ValueError e"
  using update_item_empty_updates
          [of "Some []" snake_case transport_ok "''t''" "PStr ''a''" PNone None None None None
              sample_connection]
  by (auto simp: described_def cached_def sample_connection_def has_data_def MetaTable_init_def)

text \<open>
  C3 as stated fails: with an empty cache and a transport that answers with a server
  error, \<^verbatim>\<open>update_item\<close> with an empty update map makes one DescribeTable request and
  raises \<open>TableError\<close>.
\<close>

theorem update_item_empty_updates_describes_first:
  "update_item snake_case transport_down ''t'' (PStr ''a'') PNone (Some []) None None None None
     new_connection =
   (Inl (TableError ''Unable to describe table: {0}'' [PStr ''down'']),
    \<lparr>tables = [], calls = [(''DescribeTable'', [(''table_name'', PStr ''t'')])]\<rparr>)"
  by (simp add: update_item_def update_when_def c_get_identifier_map_def on_meta_table_def
        get_meta_table_def bind_se_def call_def new_connection_def transport_down_def
        DESCRIBE_TABLE_def snake_case_names HTTP_BAD_REQUEST_def)


section \<open>describe_table\<close>

text \<open>
  C7. \<^verbatim>\<open>describe_table\<close> always asks the remote store. When the response is not ok
  and its status is \<open>HTTP_BAD_REQUEST\<close>, the call returns \<^verbatim>\<open>None\<close> and raises
  nothing; for every other status of a response that is not ok it raises \<open>TableError\<close>
  with the content of the response. The cache is left as it was.
\<close>

theorem describe_table_not_ok:
  assumes "tr (calls self) DESCRIBE_TABLE [(py TABLE_NAME, PStr table_name)] = (response, d)"
    and "\<not> ok response"
  shows "describe_table py tr table_name self =
           (if status_code response = HTTP_BAD_REQUEST then Inr None
            else Inl (TableError ''Unable to describe table: {0}'' [PStr (content response)]),
            self\<lparr>calls := calls self @ [(DESCRIBE_TABLE, [(py TABLE_NAME, PStr table_name)])]\<rparr>)"
  using assms
  by (simp add: describe_table_def get_meta_table_def bind_se_def call_def return_se_def)

theorem describe_table_not_ok_witness:
  "describe_table snake_case transport_bad_request ''t'' sample_connection =
     (Inr None,
      sample_connection\<lparr>calls := [(''DescribeTable'', [(''table_name'', PStr ''t'')])]\<rparr>) \<and>
   describe_table snake_case transport_down ''t'' sample_connection =
     (Inl (TableError ''Unable to describe table: {0}'' [PStr ''down'']),
      sample_connection\<lparr>calls := [(''DescribeTable'', [(''table_name'', PStr ''t'')])]\<rparr>)"
  using describe_table_not_ok [of transport_bad_request sample_connection snake_case "''t''"
          "\<lparr>ok = False, status_code = 400, content = ''no such table''\<rparr>"
          "\<lparr>Table = None, body = PNone\<rparr>"]
        describe_table_not_ok [of transport_down sample_connection snake_case "''t''"
          "\<lparr>ok = False, status_code = 500, content = ''down''\<rparr>"
          "\<lparr>Table = None, body = PNone\<rparr>"]
  by (simp add: transport_bad_request_def transport_down_def sample_connection_def
        HTTP_BAD_REQUEST_def DESCRIBE_TABLE_def snake_case_names)

section \<open>create_table\<close>

text \<open>
  C4, as amended. When \<^verbatim>\<open>attribute_definitions\<close> or \<^verbatim>\<open>key_schema\<close> is omitted
  (\<^verbatim>\<open>None\<close>), \<^verbatim>\<open>create_table\<close> raises \<open>ValueError\<close> and sends nothing. When both
  are supplied, be it as empty lists, the CreateTable request is sent.
\<close>

theorem create_table_requires_arguments:
  "(attribute_definitions = None \<or> key_schema = None \<longrightarrow>
      (\<exists>msg. create_table py tr table_name attribute_definitions key_schema read_capacity_units
                write_capacity_units global_secondary_indexes local_secondary_indexes self
              = (Inl (ValueError msg []), self))) \<and>
   (attribute_definitions \<noteq> None \<and> key_schema \<noteq> None \<longrightarrow>
      (\<exists>kw. calls (snd (create_table py tr table_name attribute_definitions key_schema
                           read_capacity_units write_capacity_units global_secondary_indexes
                           local_secondary_indexes self))
             = calls self @ [(CREATE_TABLE, kw)]))"
  by (auto simp: create_table_def create_table_kwargs_def bind_se_def lift_se_def call_def
        Let_def raise_se_def return_se_def split: option.splits prod.splits)

theorem create_table_requires_arguments_witness:
  "(\<exists>msg. create_table snake_case transport_ok ''t'' None (Some []) (PInt 1) (PInt 1) None None
            new_connection = (Inl (ValueError msg []), new_connection)) \<and>
   (\<exists>kw. calls (snd (create_table snake_case transport_ok ''t'' (Some []) (Some []) (PInt 1)
                        (PInt 1) None None new_connection)) = [(CREATE_TABLE, kw)])"
  using create_table_requires_arguments [of None "Some []" snake_case transport_ok "''t''"
          "PInt 1" "PInt 1" None None new_connection]
        create_table_requires_arguments [of "Some []" "Some []" snake_case transport_ok "''t''"
          "PInt 1" "PInt 1" None None new_connection]
  by (simp add: new_connection_def)

text \<open>
  C4 as stated fails: with both arguments supplied as empty lists the request is sent,
  with an empty list of attribute definitions and an empty key schema, and the call
  returns the response.
\<close>

theorem create_table_empty_lists_sent:
  "create_table snake_case transport_ok ''t'' (Some []) (Some []) PNone PNone None None
     new_connection =
     (Inr \<lparr>Table = Some sample_table, body = PNone\<rparr>,
      \<lparr>tables = [],
       calls = [(''CreateTable'',
                 [(''table_name'', PStr ''t''),
                  (''provisioned_throughput'',
                   PDict [(''ReadCapacityUnits'', PNone), (''WriteCapacityUnits'', PNone)]),
                  (''attribute_definitions'', PList []),
                  (''key_schema'', PList [])])]\<rparr>)"
  by (simp add: create_table_def create_table_kwargs_def bind_se_def lift_se_def call_def
        Let_def raise_se_def return_se_def dict_update_def assign_when_def truthy_opt_def
        sorted_key_schema_def new_connection_def transport_ok_def HTTP_OK_def
        snake_case_names READ_CAPACITY_UNITS_def
        WRITE_CAPACITY_UNITS_def CREATE_TABLE_def)

lemma HASH_le_RANGE: "HASH \<le> RANGE" "\<not> RANGE \<le> HASH"
  by (simp_all add: HASH_def RANGE_def)

lemma insort_hash:
  "snd x = HASH \<Longrightarrow> \<forall>y \<in> set ys. snd y = HASH \<or> snd y = RANGE \<Longrightarrow>
     insort_key snd x ys = x # ys"
  by (cases ys) (auto simp: HASH_le_RANGE)

lemma insort_range:
  "snd x = RANGE \<Longrightarrow> \<forall>y \<in> set hs. snd y = HASH \<Longrightarrow> \<forall>y \<in> set rs. snd y = RANGE \<Longrightarrow>
     insort_key snd x (hs @ rs) = hs @ x # rs"
proof (induction hs)
  case Nil
  then show ?case by (cases rs) auto
next
  case (Cons h hs)
  then show ?case by (simp add: HASH_le_RANGE)
qed

lemma sort_key_roles:
  assumes "\<forall>x \<in> set xs. snd x = HASH \<or> snd x = RANGE"
  shows "sort_key snd xs = filter (\<lambda>x. snd x = HASH) xs @ filter (\<lambda>x. snd x = RANGE) xs"
  using assms
proof (induction xs)
  case Nil
  then show ?case by simp
next
  case (Cons x xs)
  have ne: "HASH \<noteq> RANGE" by (simp add: HASH_def RANGE_def)
  from Cons have IH: "sort_key snd xs =
      filter (\<lambda>x. snd x = HASH) xs @ filter (\<lambda>x. snd x = RANGE) xs"
    by simp
  from Cons.prems have "snd x = HASH \<or> snd x = RANGE" by simp
  then show ?case
  proof
    assume h: "snd x = HASH"
    have "insort_key snd x (sort_key snd xs) = x # sort_key snd xs"
      using Cons.prems by (intro insort_hash[OF h]) auto
    with h ne IH show ?thesis by simp
  next
    assume r: "snd x = RANGE"
    have "insort_key snd x (filter (\<lambda>x. snd x = HASH) xs @ filter (\<lambda>x. snd x = RANGE) xs)
            = filter (\<lambda>x. snd x = HASH) xs @ x # filter (\<lambda>x. snd x = RANGE) xs"
      by (rule insort_range[OF r]) auto
    with r ne IH show ?thesis by simp
  qed
qed

lemma upper_roles: "upper HASH = HASH" "upper RANGE = RANGE"
  by (simp_all add: upper_def upper_char_def HASH_def RANGE_def)

text \<open>
  C5. The key schema in the CreateTable request is the transcribed input, sorted by key
  role: it has the same entries, the roles ascend, and when every role of the input is
  HASH or RANGE the HASH entries come first and the RANGE entries after them, each group
  in the order of the input. The key under which the key schema is stored has to differ
  from the one of the local secondary indexes, which is assigned after it.
\<close>

theorem create_table_key_schema_sorted:
  assumes "py KEY_SCHEMA \<noteq> py LOCAL_SECONDARY_INDEXES"
  shows "\<exists>kw es.
           calls (snd (create_table py tr table_name (Some attribute_definitions)
                         (Some key_schema) read_capacity_units write_capacity_units
                         global_secondary_indexes local_secondary_indexes self))
             = calls self @ [(CREATE_TABLE, kw)] \<and>
           map_of kw (py KEY_SCHEMA) = Some (PList (map key_schema_dict es)) \<and>
           mset es = mset (map (key_schema_item py) key_schema) \<and>
           sorted (map snd es) \<and>
           ((\<forall>item \<in> set key_schema.
               map_of item (py KEY_TYPE) = Some HASH \<or> map_of item (py KEY_TYPE) = Some RANGE) \<longrightarrow>
            es = filter (\<lambda>e. snd e = HASH) (map (key_schema_item py) key_schema) @
                 filter (\<lambda>e. snd e = RANGE) (map (key_schema_item py) key_schema))"
proof -
  let ?es = "sorted_key_schema py key_schema"
  let ?xs = "map (key_schema_item py) key_schema"
  have roles: "?es = filter (\<lambda>e. snd e = HASH) ?xs @ filter (\<lambda>e. snd e = RANGE) ?xs"
    if "\<forall>item \<in> set key_schema.
          map_of item (py KEY_TYPE) = Some HASH \<or> map_of item (py KEY_TYPE) = Some RANGE"
  proof -
    from that have "\<forall>x \<in> set ?xs. snd x = HASH \<or> snd x = RANGE"
      by (auto simp: key_schema_item_def py_str_def upper_roles)
    then show ?thesis
      unfolding sorted_key_schema_def by (rule sort_key_roles)
  qed
  have "\<exists>kw. calls (snd (create_table py tr table_name (Some attribute_definitions)
                         (Some key_schema) read_capacity_units write_capacity_units
                         global_secondary_indexes local_secondary_indexes self))
             = calls self @ [(CREATE_TABLE, kw)] \<and>
           map_of kw (py KEY_SCHEMA) = Some (PList (map key_schema_dict ?es))"
    using assms
    by (auto simp: create_table_def create_table_kwargs_def bind_se_def lift_se_def call_def
          Let_def raise_se_def return_se_def assign_when_def update_conv'
          split: prod.splits)
  moreover have "mset ?es = mset ?xs" "sorted (map snd ?es)"
    by (simp_all add: sorted_key_schema_def)
  ultimately show ?thesis
    using roles by blast
qed

theorem create_table_key_schema_sorted_witness:
  "\<exists>kw. calls (snd (create_table snake_case transport_ok ''t''
                       (Some [])
                       (Some [[(''attribute_name'', ''sk''), (''key_type'', ''RANGE'')],
                              [(''attribute_name'', ''pk''), (''key_type'', ''HASH'')]])
                       (PInt 1) (PInt 1) None None new_connection))
           = [(''CreateTable'', kw)] \<and>
         map_of kw ''key_schema'' =
           Some (PList [PDict [(''AttributeName'', PStr ''pk''), (''KeyType'', PStr ''HASH'')],
                        PDict [(''AttributeName'', PStr ''sk''), (''KeyType'', PStr ''RANGE'')]])"
proof -
  have items:
    "key_schema_item snake_case [(''attribute_name'', ''sk''), (''key_type'', ''RANGE'')]
       = (PStr ''sk'', ''RANGE'')"
    "key_schema_item snake_case [(''attribute_name'', ''pk''), (''key_type'', ''HASH'')]
       = (PStr ''pk'', ''HASH'')"
    by (simp_all add: key_schema_item_def snake_case_names py_str_def opt_str_def
          upper_def upper_char_def)
  have dicts:
    "key_schema_dict (PStr ''sk'', ''RANGE'')
       = PDict [(''AttributeName'', PStr ''sk''), (''KeyType'', PStr ''RANGE'')]"
    "key_schema_dict (PStr ''pk'', ''HASH'')
       = PDict [(''AttributeName'', PStr ''pk''), (''KeyType'', PStr ''HASH'')]"
    by (simp_all add: key_schema_dict_def ATTR_NAME_def KEY_TYPE_def)
  have names: "snake_case KEY_SCHEMA \<noteq> snake_case LOCAL_SECONDARY_INDEXES"
    by (simp add: snake_case_names)
  from create_table_key_schema_sorted [OF names, of transport_ok "''t''" "[]"
          "[[(''attribute_name'', ''sk''), (''key_type'', ''RANGE'')],
            [(''attribute_name'', ''pk''), (''key_type'', ''HASH'')]]"
          "PInt 1" "PInt 1" None None new_connection]
  show ?thesis
    by (simp add: items dicts snake_case_names HASH_def RANGE_def CREATE_TABLE_def
          new_connection_def)
qed

section \<open>scan: segment and total_segments\<close>

text \<open>
  C9 fails on the code. \<^verbatim>\<open>if segment:\<close> is false for the integer 0, so a scan of
  segment 0 builds the same request as a scan with no segment at all: with
  \<^verbatim>\<open>segment=0, total_segments=4\<close> the request carries \<open>total_segments\<close> and no
  \<open>segment\<close>.
\<close>

theorem scan_segment_zero:
  "scan py SCAN_FILTER_VALUES tr table_name attributes_to_get limit scan_filter
     return_consumed_capacity exclusive_start_key (PInt 0) total_segments =
   scan py SCAN_FILTER_VALUES tr table_name attributes_to_get limit scan_filter
     return_consumed_capacity exclusive_start_key PNone total_segments \<and>
   scan snake_case [] transport_ok ''t'' PNone PNone None None PNone (PInt 0) (PInt 4)
     new_connection =
     (Inr \<lparr>Table = Some sample_table, body = PNone\<rparr>,
      \<lparr>tables = [],
       calls = [(''Scan'', [(''table_name'', PStr ''t''), (''total_segments'', PInt 4)])]\<rparr>)"
  by (simp add: scan_def assign_when_def update_option_def update_when_def truthy_str_def
        truthy_opt_def bind_se_def return_se_def call_def new_connection_def transport_ok_def
        snake_case_names SCAN_def)


section \<open>batch_write_item\<close>

lemma get_attribute_type_error_cases:
  "get_attribute_type m n = Inl e \<Longrightarrow>
     e = AttributeError \<or> (\<exists>args. e = ValueError ''No attribute {0} in {1}'' args)"
  by (auto simp: get_attribute_type_def Let_def split: option.splits)

lemma item_attribute_loop_error_cases:
  "item_attribute_loop m attributes acc = Inl e \<Longrightarrow>
     e = AttributeError \<or> (\<exists>args. e = ValueError ''No attribute {0} in {1}'' args)"
  by (induction m attributes acc rule: item_attribute_loop.induct)
     (auto split: pyval.splits sum.splits dest: get_attribute_type_error_cases)

lemma get_item_attribute_map_error_cases:
  "get_item_attribute_map py m attributes item_key pythonic_key = Inl e \<Longrightarrow>
     e = AttributeError \<or> (\<exists>args. e = ValueError ''No attribute {0} in {1}'' args)"
  by (auto simp: get_item_attribute_map_def Let_def split: sum.splits
        dest: item_attribute_loop_error_cases)

lemma on_meta_table_errors:
  assumes "\<And>m e m'. method m = (Inl e, m') \<Longrightarrow> Q e"
    and "Q AttributeError"
    and "\<And>c. Q (TableError ''Unable to describe table: {0}'' [PStr c])"
  shows "hoare (\<lambda>s. True) (on_meta_table py tr t method) (\<lambda>x s. True) (\<lambda>e s. Q e)"
  unfolding hoare_def on_meta_table_def get_meta_table_def bind_se_def call_def
  by (auto simp: Let_def split: option.splits prod.splits sum.splits if_splits intro: assms)

lemma c_get_item_attribute_map_errors:
  "hoare (\<lambda>s. True) (c_get_item_attribute_map py tr t item item_key pythonic_key)
     (\<lambda>x s. True)
     (\<lambda>e s. e \<noteq> ValueError ''Either put_items or delete_items must be specified'' [])"
  unfolding c_get_item_attribute_map_def
  by (rule on_meta_table_errors)
     (auto simp: lift_se_def dest!: get_item_attribute_map_error_cases)

lemma request_items_loop_errors:
  "hoare (\<lambda>s. True) (request_items_loop py tr t request item_key items acc)
     (\<lambda>x s. True)
     (\<lambda>e s. e \<noteq> ValueError ''Either put_items or delete_items must be specified'' [])"
proof (induction items arbitrary: acc)
  case Nil
  then show ?case by (simp add: hoare_return)
next
  case (Cons item items)
  show ?case
    by (simp, rule hoare_bind[OF c_get_item_attribute_map_errors], rule Cons.IH)
qed

lemma option_map_error_cases:
  "get_consumed_capacity_map py x = Inl e \<Longrightarrow> \<exists>args. e = ValueError ''{0} must be one of {1}'' args"
  "get_item_collection_map py x = Inl e \<Longrightarrow> \<exists>args. e = ValueError ''{0} must be one of {1}'' args"
  "get_return_values_map py x = Inl e \<Longrightarrow> \<exists>args. e = ValueError ''{0} must be one of {1}'' args"
  by (auto simp: get_consumed_capacity_map_def get_item_collection_map_def
        get_return_values_map_def split: if_splits)

lemma update_option_errors:
  assumes "\<And>x e. get_map x = Inl e \<Longrightarrow> \<exists>args. e = ValueError ''{0} must be one of {1}'' args"
  shows "hoare (\<lambda>s. True) (update_option x get_map kw) (\<lambda>x s. True)
     (\<lambda>e s. e \<noteq> ValueError ''Either put_items or delete_items must be specified'' [])"
  unfolding update_option_def
  by (intro hoare_update_when hoare_lift) (auto split: sum.splits dest!: assms)

lemma batch_write_item_supplied:
  assumes "put_items \<noteq> None \<or> delete_items \<noteq> None"
  shows "hoare (\<lambda>s. True)
           (batch_write_item py tr t put_items delete_items rcc ricm)
           (\<lambda>x s. True)
           (\<lambda>e s. e \<noteq> ValueError ''Either put_items or delete_items must be specified'' [])"
proof -
  have loops: "hoare (\<lambda>s. True)
      (if c then request_items_loop py tr t request item_key items [] else return_se [])
      (\<lambda>x s. True)
      (\<lambda>e s. e \<noteq> ValueError ''Either put_items or delete_items must be specified'' [])"
    for c request item_key items
    by (simp add: request_items_loop_errors hoare_return)
  have "\<not> (put_items = None \<and> delete_items = None)"
    using assms by simp
  then show ?thesis
    unfolding batch_write_item_def
    apply (simp only: if_False)
    apply (rule hoare_bind[OF update_option_errors])
     apply (erule option_map_error_cases)
    apply (rule hoare_bind[OF update_option_errors])
     apply (erule option_map_error_cases)
    apply (rule hoare_bind[OF loops])
    apply (rule hoare_bind[OF loops])
    apply (rule hoare_bind[where R="\<lambda>x s. True"])
     apply (rule hoare_lift)
     apply (simp add: set_nested_def split: option.splits pyval.splits)
    apply (rule hoare_bind[where R="\<lambda>x s. True"])
     apply (simp add: hoare_def call_def)
    apply (auto simp: hoare_def raise_se_def return_se_def split: prod.splits)
    done
qed

text \<open>
  C8, as amended. When \<^verbatim>\<open>put_items\<close> and \<^verbatim>\<open>delete_items\<close> are both omitted
  (\<^verbatim>\<open>None\<close>), \<^verbatim>\<open>batch_write_item\<close> raises its \<open>ValueError\<close> before anything
  else, and the connection is untouched. When at least one of them is supplied, the call
  goes on past that check: whatever it raises later is another exception. An empty list
  counts as supplied: with nothing but empty lists and no options, the BatchWriteItem
  request is sent with an empty list of requests for the table.
\<close>

theorem batch_write_item_requires_items:
  "(put_items = None \<and> delete_items = None \<longrightarrow>
      batch_write_item py tr table_name put_items delete_items return_consumed_capacity
        return_item_collection_metrics self
      = (Inl (ValueError ''Either put_items or delete_items must be specified'' []), self)) \<and>
   (put_items \<noteq> None \<or> delete_items \<noteq> None \<longrightarrow>
      fst (batch_write_item py tr table_name put_items delete_items return_consumed_capacity
             return_item_collection_metrics self)
      \<noteq> Inl (ValueError ''Either put_items or delete_items must be specified'' [])) \<and>
   ((put_items = Some [] \<or> delete_items = Some []) \<and>
    put_items \<in> {None, Some []} \<and> delete_items \<in> {None, Some []} \<longrightarrow>
      calls (snd (batch_write_item py tr table_name put_items delete_items None None self))
      = calls self @ [(BATCH_WRITE_ITEM, [(py REQUEST_ITEMS, PDict [(table_name, PList [])])])])"
proof (intro conjI impI)
  assume "put_items = None \<and> delete_items = None"
  then show "batch_write_item py tr table_name put_items delete_items return_consumed_capacity
        return_item_collection_metrics self
      = (Inl (ValueError ''Either put_items or delete_items must be specified'' []), self)"
    by (simp add: batch_write_item_def raise_se_def)
next
  let ?m = "batch_write_item py tr table_name put_items delete_items return_consumed_capacity
             return_item_collection_metrics"
  assume supplied: "put_items \<noteq> None \<or> delete_items \<noteq> None"
  obtain r s' where res: "?m self = (r, s')"
    by (cases "?m self")
  from hoareD[OF batch_write_item_supplied[OF supplied] _ res]
  show "fst (?m self) \<noteq> Inl (ValueError ''Either put_items or delete_items must be specified'' [])"
    using res by (cases r) auto
next
  assume "(put_items = Some [] \<or> delete_items = Some []) \<and>
    put_items \<in> {None, Some []} \<and> delete_items \<in> {None, Some []}"
  then show "calls (snd (batch_write_item py tr table_name put_items delete_items None None self))
      = calls self @ [(BATCH_WRITE_ITEM, [(py REQUEST_ITEMS, PDict [(table_name, PList [])])])]"
    by (auto simp: batch_write_item_def update_option_def update_when_def truthy_str_def
          truthy_opt_def bind_se_def return_se_def lift_se_def set_nested_def call_def
          raise_se_def split: prod.splits)
qed

theorem batch_write_item_requires_items_witness:
  "batch_write_item snake_case transport_ok ''t'' None None None None new_connection
     = (Inl (ValueError ''Either put_items or delete_items must be specified'' []),
        new_connection) \<and>
   fst (batch_write_item snake_case transport_ok ''t'' (Some []) (Some []) None None
          new_connection)
     \<noteq> Inl (ValueError ''Either put_items or delete_items must be specified'' []) \<and>
   calls (snd (batch_write_item snake_case transport_ok ''t'' (Some []) (Some []) None None
                 new_connection))
     = [(''BatchWriteItem'', [(''request_items'', PDict [(''t'', PList [])])])]"
  using batch_write_item_requires_items [of None None snake_case transport_ok "''t''" None None
          new_connection]
        batch_write_item_requires_items [of "Some []" "Some []" snake_case transport_ok "''t''"
          None None new_connection]
  by (simp add: new_connection_def BATCH_WRITE_ITEM_def snake_case_names)

text \<open>
  C8 as stated fails: with both arguments supplied as empty lists the call raises nothing,
  sends a BatchWriteItem request with no items and returns the response.
\<close>

theorem batch_write_item_empty_lists_sent:
  "batch_write_item snake_case transport_ok ''t'' (Some []) (Some []) None None new_connection =
     (Inr \<lparr>Table = Some sample_table, body = PNone\<rparr>,
      \<lparr>tables = [],
       calls = [(''BatchWriteItem'', [(''request_items'', PDict [(''t'', PList [])])])]\<rparr>)"
  by (simp add: batch_write_item_def update_option_def update_when_def truthy_str_def
          truthy_opt_def bind_se_def return_se_def lift_se_def set_nested_def call_def
          raise_se_def new_connection_def transport_ok_def BATCH_WRITE_ITEM_def
          snake_case_names)


section \<open>Conditions of query and scan\<close>

text \<open>
  The dictionary comprehension keeps one key: of the values of a condition only the last
  one is left, and of no values, none.
\<close>

lemma value_comprehension_last:
  "value_comprehension t vs = (if vs = [] then [] else [(t, last vs)])"
proof -
  have "foldl (\<lambda>d v. AList.update t v d) [(t, a)] vs = [(t, last (a # vs))]" for a
    by (induction vs arbitrary: a) auto
  then show ?thesis
    by (cases vs) (auto simp: value_comprehension_def)
qed

text \<open>
  C1 fails on the code. The brackets of \<^verbatim>\<open>[{attr_type: value for value in ...}]\<close>
  enclose one dictionary comprehension, not a list of dictionaries: for a condition with
  the two values \<open>b\<close> and \<open>c\<close> on the string attribute \<open>sk\<close>, both \<^verbatim>\<open>query\<close> and
  \<^verbatim>\<open>scan\<close> emit an \<open>AttributeValueList\<close> with the single entry for \<open>c\<close>.
\<close>

theorem condition_values_collapse:
  "query snake_case [''EQ'', ''LE'', ''LT'', ''GE'', ''GT'', ''BEGINS_WITH'', ''BETWEEN'']
     transport_ok ''t'' (PStr ''a'') PNone PNone PNone PNone
     (Some [(''sk'', [(''ComparisonOperator'', PStr ''BETWEEN''),
                      (''AttributeValueList'', PList [PStr ''b'', PStr ''c''])])])
     PNone None PNone None sample_connection =
   (Inr \<lparr>Table = Some sample_table, body = PNone\<rparr>,
    \<lparr>tables = [(''t'', \<lparr>data = Some sample_table, p_range_keyname = None,
                         p_hash_keyname = Some ''pk''\<rparr>)],
     calls = [(''Query'',
               [(''table_name'', PStr ''t''),
                (''key_conditions'',
                 PDict [(''pk'', PDict [(''AttributeValueList'', PList [PDict [(''S'', PStr ''a'')]]),
                                        (''ComparisonOperator'', PStr ''EQ'')]),
                        (''sk'', PDict [(''AttributeValueList'', PList [PDict [(''S'', PStr ''c'')]]),
                                        (''ComparisonOperator'', PStr ''BETWEEN'')])])])]\<rparr>) \<and>
   scan snake_case [''EQ''] transport_ok ''t'' PNone PNone
     (Some [(''sk'', [(''ComparisonOperator'', PStr ''EQ''),
                      (''AttributeValueList'', PList [PStr ''b'', PStr ''c''])])])
     None PNone PNone PNone sample_connection =
   (Inr \<lparr>Table = Some sample_table, body = PNone\<rparr>,
    \<lparr>tables = [(''t'', \<lparr>data = Some sample_table, p_range_keyname = None,
                         p_hash_keyname = None\<rparr>)],
     calls = [(''Scan'',
               [(''table_name'', PStr ''t''),
                (''scan_filter'',
                 PDict [(''sk'', PDict [(''AttributeValueList'', PList [PDict [(''S'', PStr ''c'')]]),
                                        (''ComparisonOperator'', PStr ''EQ'')])])])]\<rparr>)"
  by code_simp

section \<open>Enumerated options\<close>




end
